theory Spec2Isabelle
  imports Main "HOL-Library.Word"
begin

unbundle bit_operations_syntax

section \<open>Data model\<close>

text \<open>
  The analyzer of \<^verbatim>\<open>DataflowAnalyzer.cpp\<close> works on types declared in other files of
  the decompiler (\<^verbatim>\<open>MemoryLocation\<close>, \<^verbatim>\<open>AbstractValue\<close>, \<^verbatim>\<open>Value\<close>,
  \<^verbatim>\<open>ReachingDefinitions\<close>, \<^verbatim>\<open>Dataflow\<close>, \<^verbatim>\<open>Term\<close>). They are modelled here from
  the description of the data model; every function of \<^verbatim>\<open>DataflowAnalyzer.cpp\<close> itself
  is translated from its source text. Machine words (\<^verbatim>\<open>ConstantValue\<close>, \<^verbatim>\<open>BitAddr\<close>,
  \<^verbatim>\<open>SignedConstantValue\<close>) are words of one width \<open>'w\<close>, which is left open; signed
  readings are taken with \<open>sint\<close>. The \<^verbatim>\<open>assert\<close> calls of the source are debugging
  checks and are not part of the model.
\<close>

subsection \<open>Memory locations\<close>

datatype MemoryDomain = MEMORY | STACK | OTHER_DOMAIN nat

text \<open>
  Modelled from the spec: \<^verbatim>\<open>MemoryLocation\<close> is a triple (domain, address in bits, size in
  bits), or the empty location, which differs from every real one.
\<close>

datatype 'a MemoryLocation = EmptyLocation | Location MemoryDomain 'a nat

fun loc_addr :: "'w::len word MemoryLocation \<Rightarrow> 'w word" where
  "loc_addr EmptyLocation = 0"
| "loc_addr (Location d a s) = a"

fun loc_size :: "'a MemoryLocation \<Rightarrow> nat" where
  "loc_size EmptyLocation = 0"
| "loc_size (Location d a s) = s"

fun loc_endAddr :: "'w::len word MemoryLocation \<Rightarrow> 'w word" where
  "loc_endAddr EmptyLocation = 0"
| "loc_endAddr (Location d a s) = a + of_nat s"

text \<open>
  Modelled from the spec: \<open>a.covers(b)\<close> iff both are in the same domain and the bit range
  of \<open>b\<close> lies inside the bit range of \<open>a\<close>. Bit addresses are signed.
\<close>

fun covers :: "'w::len word MemoryLocation \<Rightarrow> 'w word MemoryLocation \<Rightarrow> bool" where
  "covers (Location da aa sa) (Location db ab sb) =
     (da = db \<and> sint aa \<le> sint ab \<and> sint (ab + of_nat sb) \<le> sint (aa + of_nat sa))"
| "covers _ _ = False"

subsection \<open>Sized and abstract values\<close>

text \<open>
  Modelled from the spec: a concrete value has a size and yields its bits as an
  unsigned value and as a signed value.
\<close>

record 'a SizedValue =
  sv_size :: nat
  sv_value :: 'a

definition SizedValue_new :: "nat \<Rightarrow> 'w::len word \<Rightarrow> 'w word SizedValue" where
  "SizedValue_new n v = \<lparr>sv_size = n, sv_value = take_bit n v\<rparr>"

text \<open>The signed reading of a sized value: its bits, sign-extended from its own width.\<close>

definition signedValue :: "'w::len word SizedValue \<Rightarrow> 'w word" where
  "signedValue sv = signed_take_bit (sv_size sv - 1) (sv_value sv)"

text \<open>
  Modelled from the spec: \<^verbatim>\<open>AbstractValue\<close> is a fixed-width bit lattice. The source builds
  one with \<^verbatim>\<open>AbstractValue(size, zeroBits, oneBits)\<close>, where \<^verbatim>\<open>(size, -1, -1)\<close> is the fully
  nondeterministic value: \<open>zeroBits\<close> marks the positions that may hold 0 and \<open>oneBits\<close>
  those that may hold 1. A position marked in neither carries no information (bottom),
  a position marked in both is nondeterministic. \<open>merge\<close> is the pointwise join,
  \<open>project\<close> keeps the positions of a mask, \<open>shift\<close> moves the positions (to the left for
  a positive amount, to the right for a negative one), \<open>resize\<close> changes the width and
  drops the positions beyond it.
\<close>

record 'a AbstractValue =
  av_size :: nat
  zeroBits :: 'a
  oneBits :: 'a

definition AbstractValue_new :: "nat \<Rightarrow> 'w::len word \<Rightarrow> 'w word \<Rightarrow> 'w word AbstractValue" where
  "AbstractValue_new n z o1 = \<lparr>av_size = n, zeroBits = take_bit n z, oneBits = take_bit n o1\<rparr>"

definition AbstractValue_default :: "'w::len word AbstractValue" where
  "AbstractValue_default = \<lparr>av_size = 0, zeroBits = 0, oneBits = 0\<rparr>"

definition AbstractValue_of :: "'w::len word SizedValue \<Rightarrow> 'w word AbstractValue" where
  "AbstractValue_of sv =
     AbstractValue_new (sv_size sv) (NOT (sv_value sv)) (sv_value sv)"

definition isConcrete :: "'w::len word AbstractValue \<Rightarrow> bool" where
  "isConcrete a = (zeroBits a XOR oneBits a = mask (av_size a))"

definition isNondeterministic :: "'w::len word AbstractValue \<Rightarrow> bool" where
  "isNondeterministic a = (zeroBits a AND oneBits a \<noteq> 0)"

definition asConcrete :: "'w::len word AbstractValue \<Rightarrow> 'w word SizedValue" where
  "asConcrete a = \<lparr>sv_size = av_size a, sv_value = oneBits a\<rparr>"

definition av_merge :: "'w::len word AbstractValue \<Rightarrow> 'w word AbstractValue \<Rightarrow> 'w word AbstractValue" where
  "av_merge a b = a\<lparr>zeroBits := zeroBits a OR zeroBits b, oneBits := oneBits a OR oneBits b\<rparr>"

definition av_project :: "'w::len word \<Rightarrow> 'w word AbstractValue \<Rightarrow> 'w word AbstractValue" where
  "av_project m a = a\<lparr>zeroBits := zeroBits a AND m, oneBits := oneBits a AND m\<rparr>"

definition bitShift :: "'w::len word \<Rightarrow> int \<Rightarrow> 'w word" where
  "bitShift v n = (if 0 < n then push_bit (nat n) v else drop_bit (nat (- n)) v)"

definition av_shift :: "int \<Rightarrow> 'w::len word AbstractValue \<Rightarrow> 'w word AbstractValue" where
  "av_shift n a = a\<lparr>zeroBits := bitShift (zeroBits a) n, oneBits := bitShift (oneBits a) n\<rparr>"

definition av_resize :: "nat \<Rightarrow> 'w::len word AbstractValue \<Rightarrow> 'w word AbstractValue" where
  "av_resize n a =
     \<lparr>av_size = n, zeroBits = take_bit n (zeroBits a), oneBits = take_bit n (oneBits a)\<rparr>"

text \<open>
  The order of the lattice: \<open>b\<close> is at least as imprecise as \<open>a\<close> when every bit value
  that \<open>a\<close> allows is allowed by \<open>b\<close>.
\<close>

definition av_le :: "'w::len word AbstractValue \<Rightarrow> 'w word AbstractValue \<Rightarrow> bool" where
  "av_le a b = (zeroBits a AND zeroBits b = zeroBits a \<and> oneBits a AND oneBits b = oneBits a)"

subsection \<open>Values of terms\<close>

datatype 'a TriState = Unknown | Yes 'a | No

text \<open>
  Modelled from the spec: a \<^verbatim>\<open>Value\<close> holds the abstract value, the stack-offset
  tri-state (Yes(k) / No / Unknown) and the product tri-state. \<^verbatim>\<open>makeStackOffset(k)\<close>
  sets Yes(k), \<^verbatim>\<open>makeNotStackOffset\<close> sets No, and once both have been asserted No wins;
  the same for the product flag. A fresh Value is Unknown for both, with a bottom
  abstract value of the width of its term.
\<close>

record 'a Value =
  abstractValue :: "'a AbstractValue"
  stackOffsetState :: "'a TriState"
  productState :: "unit TriState"

definition Value_new :: "nat \<Rightarrow> 'w::len word Value" where
  "Value_new n =
     \<lparr>abstractValue = AbstractValue_new n 0 0, stackOffsetState = Unknown, productState = Unknown\<rparr>"

definition setAbstractValue :: "'a AbstractValue \<Rightarrow> 'a Value \<Rightarrow> 'a Value" where
  "setAbstractValue a v = v\<lparr>abstractValue := a\<rparr>"

definition isStackOffset :: "'a Value \<Rightarrow> bool" where
  "isStackOffset v = (case stackOffsetState v of Yes k \<Rightarrow> True | _ \<Rightarrow> False)"

definition isNotStackOffset :: "'a Value \<Rightarrow> bool" where
  "isNotStackOffset v = (case stackOffsetState v of No \<Rightarrow> True | _ \<Rightarrow> False)"

definition stackOffset :: "'w::len word Value \<Rightarrow> 'w word" where
  "stackOffset v = (case stackOffsetState v of Yes k \<Rightarrow> k | _ \<Rightarrow> 0)"

definition makeStackOffset :: "'a \<Rightarrow> 'a Value \<Rightarrow> 'a Value" where
  "makeStackOffset k v = (case stackOffsetState v of No \<Rightarrow> v | _ \<Rightarrow> v\<lparr>stackOffsetState := Yes k\<rparr>)"

definition makeNotStackOffset :: "'a Value \<Rightarrow> 'a Value" where
  "makeNotStackOffset v = v\<lparr>stackOffsetState := No\<rparr>"

definition isProduct :: "'a Value \<Rightarrow> bool" where
  "isProduct v = (case productState v of Yes u \<Rightarrow> True | _ \<Rightarrow> False)"

definition isNotProduct :: "'a Value \<Rightarrow> bool" where
  "isNotProduct v = (case productState v of No \<Rightarrow> True | _ \<Rightarrow> False)"

definition makeProduct :: "'a Value \<Rightarrow> 'a Value" where
  "makeProduct v = (case productState v of No \<Rightarrow> v | _ \<Rightarrow> v\<lparr>productState := Yes ()\<rparr>)"

definition makeNotProduct :: "'a Value \<Rightarrow> 'a Value" where
  "makeNotProduct v = v\<lparr>productState := No\<rparr>"

subsection \<open>Terms\<close>

text \<open>
  Modelled from the spec: a term is a constant, an intrinsic, a memory location access,
  a dereference, a unary or binary operator, or a choice. Every term has an identity
  (the pointer of the source, here a number), a size in bits and the three access
  flags, which are not exclusive. The kinds named \<open>OTHER\<close> stand for the values of the
  enumerations that the analyzer does not know and answers with a warning.
\<close>

record TermInfo =
  term_id :: nat
  term_size :: nat
  isRead :: bool
  isWrite :: bool
  isKill :: bool

datatype IntrinsicKind =
    UNKNOWN | UNDEFINED | ZERO_STACK_OFFSET | REACHING_SNAPSHOT
  | INSTRUCTION_ADDRESS | NEXT_INSTRUCTION_ADDRESS | OTHER_INTRINSIC nat

datatype UnaryKind = NOT_OP | NEGATION | SIGN_EXTEND | ZERO_EXTEND | TRUNCATE | OTHER_UNARY nat

datatype BinaryKind =
    AND_OP | OR_OP | XOR_OP | SHL | SHR | SAR | ADD | SUB | MUL
  | SIGNED_DIV | SIGNED_REM | UNSIGNED_DIV | UNSIGNED_REM | EQUAL
  | SIGNED_LESS | SIGNED_LESS_OR_EQUAL | UNSIGNED_LESS | UNSIGNED_LESS_OR_EQUAL
  | OTHER_BINARY nat

text \<open>
  An intrinsic carries the address and the size of the instruction of its statement,
  which \<^verbatim>\<open>INSTRUCTION_ADDRESS\<close> and \<^verbatim>\<open>NEXT_INSTRUCTION_ADDRESS\<close> read.
\<close>

datatype 'a Term =
    IntConst TermInfo "'a SizedValue"
  | Intrinsic TermInfo IntrinsicKind 'a 'a
  | MemoryLocationAccess TermInfo "'a MemoryLocation"
  | Dereference TermInfo "'a Term" MemoryDomain
  | UnaryOperator TermInfo UnaryKind "'a Term"
  | BinaryOperator TermInfo BinaryKind "'a Term" "'a Term"
  | Choice TermInfo "'a Term" "'a Term"
  | OtherTerm TermInfo

fun info :: "'a Term \<Rightarrow> TermInfo" where
  "info (IntConst i c) = i"
| "info (Intrinsic i k a s) = i"
| "info (MemoryLocationAccess i l) = i"
| "info (Dereference i a d) = i"
| "info (UnaryOperator i k a) = i"
| "info (BinaryOperator i k l r) = i"
| "info (Choice i p d) = i"
| "info (OtherTerm i) = i"

definition tid :: "'a Term \<Rightarrow> nat" where
  "tid t = term_id (info t)"

definition tsize :: "'a Term \<Rightarrow> nat" where
  "tsize t = term_size (info t)"


subsection \<open>Reaching definitions\<close>

text \<open>
  Modelled from the spec: \<^verbatim>\<open>ReachingDefinitions\<close> is a set of pairs (location, defining
  term), kept as a list of chunks ordered by address, each chunk a location with the
  list of the terms that define it. \<open>merge\<close> is the union of the pairs,
  \<open>addDefinition(L, T)\<close> inserts (L, T) and kills the pairs whose location L covers,
  \<open>killDefinitions(L)\<close> removes the pairs whose location lies within L,
  \<open>filterOut(pred)\<close> removes the pairs that satisfy \<open>pred\<close>, \<open>project(L)\<close> extracts the
  chunks that lie within L. Two defining terms are the same when their identities are.
\<close>

type_synonym 'a Chunk = "'a MemoryLocation \<times> 'a Term list"

type_synonym 'a ReachingDefinitions = "'a Chunk list"

definition filterOut ::
  "('a MemoryLocation \<Rightarrow> 'a Term \<Rightarrow> bool) \<Rightarrow> 'a ReachingDefinitions \<Rightarrow> 'a ReachingDefinitions" where
  "filterOut pred rd =
     filter (\<lambda>c. snd c \<noteq> []) (map (\<lambda>c. (fst c, filter (\<lambda>d. \<not> pred (fst c) d) (snd c))) rd)"

definition killDefinitions ::
  "'w::len word MemoryLocation \<Rightarrow> 'w word ReachingDefinitions \<Rightarrow> 'w word ReachingDefinitions" where
  "killDefinitions L rd = filter (\<lambda>c. \<not> covers L (fst c)) rd"

fun insertChunk :: "'w::len word Chunk \<Rightarrow> 'w word ReachingDefinitions \<Rightarrow> 'w word ReachingDefinitions" where
  "insertChunk c [] = [c]"
| "insertChunk c (x # xs) =
     (if sint (loc_addr (fst c)) \<le> sint (loc_addr (fst x)) then c # x # xs
      else x # insertChunk c xs)"

definition addDefinition ::
  "'w::len word MemoryLocation \<Rightarrow> 'w word Term \<Rightarrow> 'w word ReachingDefinitions \<Rightarrow> 'w word ReachingDefinitions" where
  "addDefinition L t rd = insertChunk (L, [t]) (killDefinitions L rd)"

definition project ::
  "'w::len word MemoryLocation \<Rightarrow> 'w word ReachingDefinitions \<Rightarrow> 'w word ReachingDefinitions" where
  "project L rd = filter (\<lambda>c. covers L (fst c)) rd"

fun addPair ::
  "'w::len word MemoryLocation \<Rightarrow> 'w word Term \<Rightarrow> 'w word ReachingDefinitions \<Rightarrow> 'w word ReachingDefinitions" where
  "addPair L t [] = [(L, [t])]"
| "addPair L t (x # xs) =
     (if fst x = L then (L, if tid t \<in> tid ` set (snd x) then snd x else snd x @ [t]) # xs
      else if sint (loc_addr L) < sint (loc_addr (fst x)) then (L, [t]) # x # xs
      else x # addPair L t xs)"

definition merge_rd ::
  "'w::len word ReachingDefinitions \<Rightarrow> 'w word ReachingDefinitions \<Rightarrow> 'w word ReachingDefinitions" where
  "merge_rd rd other = foldl (\<lambda>acc c. foldl (\<lambda>acc' t. addPair (fst c) t acc') acc (snd c)) rd other"

text \<open>The terms that define something in a set of reaching definitions, by identity.\<close>

definition definers :: "'a ReachingDefinitions \<Rightarrow> nat set" where
  "definers rd = (\<Union>c \<in> set rd. tid ` set (snd c))"

subsection \<open>The dataflow store, the architecture and the diagnostic sink\<close>

datatype Warning =
    UnknownStatementKind
  | UnknownTermKind
  | UnknownIntrinsicKind
  | UnknownUnaryOperatorKind
  | UnknownBinaryOperatorKind
  | FixpointNotReached nat

text \<open>
  Modelled from the spec: the dataflow store maps terms to their Value, memory location
  and reaching definitions; every term has a Value of its own. A term with no Value yet
  gets a fresh one on first access, a term with no location has the empty one, a term
  with no definitions the empty set. The warnings are those handed to \<^verbatim>\<open>ncWarning\<close>,
  oldest first. The architecture tells the byte order and which locations are global
  memory.
\<close>

record 'a DataflowAnalyzer =
  term2value :: "nat \<Rightarrow> 'a Value option"
  term2location :: "nat \<Rightarrow> 'a MemoryLocation"
  term2definitions :: "nat \<Rightarrow> 'a ReachingDefinitions"
  warnings :: "Warning list"

datatype ByteOrder = LittleEndian | BigEndian

record 'a Architecture =
  byteOrder :: ByteOrder
  isGlobalMemory :: "'a MemoryLocation \<Rightarrow> bool"

definition getValue :: "'w::len word DataflowAnalyzer \<Rightarrow> 'w word Term \<Rightarrow> 'w word Value" where
  "getValue st t = (case term2value st (tid t) of None \<Rightarrow> Value_new (tsize t) | Some v \<Rightarrow> v)"

definition putValue :: "'a Term \<Rightarrow> 'a Value \<Rightarrow> 'a DataflowAnalyzer \<Rightarrow> 'a DataflowAnalyzer" where
  "putValue t v st = st\<lparr>term2value := (term2value st)(tid t := Some v)\<rparr>"

definition updateValue ::
  "'w::len word Term \<Rightarrow> ('w word Value \<Rightarrow> 'w word Value) \<Rightarrow> 'w word DataflowAnalyzer \<Rightarrow> 'w word DataflowAnalyzer" where
  "updateValue t f st = putValue t (f (getValue st t)) st"

definition getMemoryLocation :: "'a DataflowAnalyzer \<Rightarrow> 'a Term \<Rightarrow> 'a MemoryLocation" where
  "getMemoryLocation st t = term2location st (tid t)"

definition getDefinitions :: "'a DataflowAnalyzer \<Rightarrow> 'a Term \<Rightarrow> 'a ReachingDefinitions" where
  "getDefinitions st t = term2definitions st (tid t)"

definition putDefinitions ::
  "'a Term \<Rightarrow> 'a ReachingDefinitions \<Rightarrow> 'a DataflowAnalyzer \<Rightarrow> 'a DataflowAnalyzer" where
  "putDefinitions t rd st = st\<lparr>term2definitions := (term2definitions st)(tid t := rd)\<rparr>"

definition ncWarning :: "Warning \<Rightarrow> 'a DataflowAnalyzer \<Rightarrow> 'a DataflowAnalyzer" where
  "ncWarning w st = st\<lparr>warnings := warnings st @ [w]\<rparr>"

section \<open>The memory and definition bookkeeper\<close>

subsection \<open>mergeReachingValues (lines 369--457)\<close>

definition bitMask :: "nat \<Rightarrow> 'w::len word" where
  "bitMask n = mask n"

text \<open>The mask of the bits of the term that a chunk covers (lines 390--395).\<close>

definition chunkMask ::
  "'w::len word Architecture \<Rightarrow> 'w word MemoryLocation \<Rightarrow> 'w word MemoryLocation \<Rightarrow> 'w word" where
  "chunkMask A termLocation chunkLocation =
     (if byteOrder A = LittleEndian
      then bitShift (bitMask (loc_size chunkLocation))
             (sint (loc_addr chunkLocation - loc_addr termLocation))
      else bitShift (bitMask (loc_size chunkLocation))
             (sint (loc_endAddr termLocation - loc_endAddr chunkLocation)))"

text \<open>One round of the inner loop (lines 397--418): the value of one definition,
  shifted to the term's location and projected to the chunk, is merged into the
  accumulator.\<close>

definition mergeDefinitionValue ::
  "'w::len word Architecture \<Rightarrow> 'w word DataflowAnalyzer \<Rightarrow> 'w word MemoryLocation \<Rightarrow> 'w word \<Rightarrow>
   'w word AbstractValue \<Rightarrow> 'w word Term \<Rightarrow> 'w word AbstractValue" where
  "mergeDefinitionValue A st termLocation m termAbstractValue definition =
     (let definitionLocation = getMemoryLocation st definition;
          definitionAbstractValue = abstractValue (getValue st definition);
          shifted =
            (if byteOrder A = LittleEndian
             then av_shift (sint (loc_addr definitionLocation - loc_addr termLocation))
                    definitionAbstractValue
             else av_shift (sint (loc_endAddr termLocation - loc_endAddr definitionLocation))
                    definitionAbstractValue)
      in av_merge termAbstractValue (av_project m shifted))"

definition mergeChunkValues ::
  "'w::len word Architecture \<Rightarrow> 'w word DataflowAnalyzer \<Rightarrow> 'w word MemoryLocation \<Rightarrow>
   'w word AbstractValue \<Rightarrow> 'w word Chunk \<Rightarrow> 'w word AbstractValue" where
  "mergeChunkValues A st termLocation termAbstractValue chunk =
     foldl (mergeDefinitionValue A st termLocation (chunkMask A termLocation (fst chunk)))
       termAbstractValue (snd chunk)"

text \<open>The definitions of the lower bits of the term (lines 428--438); \<open>None\<close> is the
  null pointer of the source.\<close>

definition lowerBitsDefinitions ::
  "'w::len word Architecture \<Rightarrow> 'w word MemoryLocation \<Rightarrow> 'w word ReachingDefinitions \<Rightarrow>
   'w word Term list option" where
  "lowerBitsDefinitions A termLocation definitions =
     (case definitions of
        [] \<Rightarrow> None
      | front # rest \<Rightarrow>
          (if byteOrder A = LittleEndian
           then (if loc_addr (fst front) = loc_addr termLocation then Some (snd front) else None)
           else (if loc_endAddr (fst (last definitions)) = loc_endAddr termLocation
                 then Some (snd (last definitions)) else None)))"

text \<open>One round of the flag loop (lines 441--455).\<close>

definition mergeDefinitionFlags ::
  "'w::len word Term \<Rightarrow> 'w word DataflowAnalyzer \<Rightarrow> 'w word Term \<Rightarrow> 'w word DataflowAnalyzer" where
  "mergeDefinitionFlags t st definition =
     (let definitionValue = getValue st definition;
          st1 = (if isNotStackOffset definitionValue then updateValue t makeNotStackOffset st
                 else if isStackOffset definitionValue
                 then updateValue t (makeStackOffset (stackOffset definitionValue)) st
                 else st)
      in if isNotProduct definitionValue then updateValue t makeNotProduct st1
         else if isProduct definitionValue then updateValue t makeProduct st1
         else st1)"

definition mergeReachingValues ::
  "'w::len word Architecture \<Rightarrow> 'w word Term \<Rightarrow> 'w word MemoryLocation \<Rightarrow>
   'w word ReachingDefinitions \<Rightarrow> 'w word DataflowAnalyzer \<Rightarrow> 'w word DataflowAnalyzer" where
  "mergeReachingValues A t termLocation definitions st =
     (if definitions = [] then st
      else
        let termAbstractValue =
              foldl (mergeChunkValues A st termLocation) (abstractValue (getValue st t)) definitions;
            st1 = updateValue t (setAbstractValue (av_resize (tsize t) termAbstractValue)) st
        in (case lowerBitsDefinitions A termLocation definitions of
              None \<Rightarrow> st1
            | Some ds \<Rightarrow> foldl (mergeDefinitionFlags t) st1 ds))"

subsection \<open>setMemoryLocation (lines 323--367)\<close>

text \<open>The first step (lines 324--344): remember the new location and, for a write that
  had a location, drop the term's own definitions from the context.\<close>

definition rememberLocation ::
  "'w::len word Term \<Rightarrow> 'w word MemoryLocation \<Rightarrow>
   'w word DataflowAnalyzer \<times> 'w word ReachingDefinitions \<Rightarrow>
   'w word DataflowAnalyzer \<times> 'w word ReachingDefinitions" where
  "rememberLocation t newMemoryLocation s =
     (let st = fst s; ctx = snd s; oldMemoryLocation = getMemoryLocation st t
      in if oldMemoryLocation \<noteq> newMemoryLocation
         then (st\<lparr>term2location := (term2location st)(tid t := newMemoryLocation)\<rparr>,
               if oldMemoryLocation \<noteq> EmptyLocation \<and> isWrite (info t)
               then filterOut (\<lambda>L definition. tid definition = tid t) ctx
               else ctx)
         else (st, ctx))"

definition setMemoryLocation ::
  "'w::len word Architecture \<Rightarrow> 'w word Term \<Rightarrow> 'w word MemoryLocation \<Rightarrow>
   'w word DataflowAnalyzer \<times> 'w word ReachingDefinitions \<Rightarrow>
   'w word DataflowAnalyzer \<times> 'w word ReachingDefinitions" where
  "setMemoryLocation A t newMemoryLocation s =
     (let oldMemoryLocation = getMemoryLocation (fst s) t;
          st1 = fst (rememberLocation t newMemoryLocation s);
          ctx1 = snd (rememberLocation t newMemoryLocation s)
      in if newMemoryLocation \<noteq> EmptyLocation \<and> \<not> isGlobalMemory A newMemoryLocation
         then
           let st2 = (if isRead (info t)
                      then mergeReachingValues A t newMemoryLocation (project newMemoryLocation ctx1)
                             (putDefinitions t (project newMemoryLocation ctx1) st1)
                      else st1);
               ctx2 = (if isWrite (info t) then addDefinition newMemoryLocation t ctx1 else ctx1);
               ctx3 = (if isKill (info t) then killDefinitions newMemoryLocation ctx2 else ctx2)
           in (st2, ctx3)
         else
           (if isRead (info t) \<and> oldMemoryLocation \<noteq> EmptyLocation
            then putDefinitions t [] st1 else st1, ctx1))"

section \<open>Operator semantics\<close>

text \<open>
  The operators on abstract values (\<^verbatim>\<open>~a\<close>, \<^verbatim>\<open>a + b\<close>, \<^verbatim>\<open>a.asSigned() / b\<close>,
  \<^verbatim>\<open>signExtend\<close>, and so on) are declared with \<^verbatim>\<open>AbstractValue\<close>, outside the analyzer.
  The analyzer only chooses among them, so they are taken as a parameter.
\<close>

record 'a AbstractOps =
  op_not :: "'a AbstractValue \<Rightarrow> 'a AbstractValue"
  op_neg :: "'a AbstractValue \<Rightarrow> 'a AbstractValue"
  op_signExtend :: "nat \<Rightarrow> 'a AbstractValue \<Rightarrow> 'a AbstractValue"
  op_zeroExtend :: "nat \<Rightarrow> 'a AbstractValue \<Rightarrow> 'a AbstractValue"
  op_and :: "'a AbstractValue \<Rightarrow> 'a AbstractValue \<Rightarrow> 'a AbstractValue"
  op_or :: "'a AbstractValue \<Rightarrow> 'a AbstractValue \<Rightarrow> 'a AbstractValue"
  op_xor :: "'a AbstractValue \<Rightarrow> 'a AbstractValue \<Rightarrow> 'a AbstractValue"
  op_shl :: "'a AbstractValue \<Rightarrow> 'a AbstractValue \<Rightarrow> 'a AbstractValue"
  op_shr :: "'a AbstractValue \<Rightarrow> 'a AbstractValue \<Rightarrow> 'a AbstractValue"
  op_sar :: "'a AbstractValue \<Rightarrow> 'a AbstractValue \<Rightarrow> 'a AbstractValue"
  op_add :: "'a AbstractValue \<Rightarrow> 'a AbstractValue \<Rightarrow> 'a AbstractValue"
  op_sub :: "'a AbstractValue \<Rightarrow> 'a AbstractValue \<Rightarrow> 'a AbstractValue"
  op_mul :: "'a AbstractValue \<Rightarrow> 'a AbstractValue \<Rightarrow> 'a AbstractValue"
  op_signed_div :: "'a AbstractValue \<Rightarrow> 'a AbstractValue \<Rightarrow> 'a AbstractValue"
  op_signed_rem :: "'a AbstractValue \<Rightarrow> 'a AbstractValue \<Rightarrow> 'a AbstractValue"
  op_unsigned_div :: "'a AbstractValue \<Rightarrow> 'a AbstractValue \<Rightarrow> 'a AbstractValue"
  op_unsigned_rem :: "'a AbstractValue \<Rightarrow> 'a AbstractValue \<Rightarrow> 'a AbstractValue"
  op_equal :: "'a AbstractValue \<Rightarrow> 'a AbstractValue \<Rightarrow> 'a AbstractValue"
  op_signed_less :: "'a AbstractValue \<Rightarrow> 'a AbstractValue \<Rightarrow> 'a AbstractValue"
  op_signed_less_or_equal :: "'a AbstractValue \<Rightarrow> 'a AbstractValue \<Rightarrow> 'a AbstractValue"
  op_unsigned_less :: "'a AbstractValue \<Rightarrow> 'a AbstractValue \<Rightarrow> 'a AbstractValue"
  op_unsigned_less_or_equal :: "'a AbstractValue \<Rightarrow> 'a AbstractValue \<Rightarrow> 'a AbstractValue"

text \<open>\<^verbatim>\<open>apply\<close> for unary operators (lines 559--575): the result and the warning, if any.\<close>

fun applyUnary ::
  "'w::len word AbstractOps \<Rightarrow> UnaryKind \<Rightarrow> nat \<Rightarrow> 'w word AbstractValue \<Rightarrow>
   'w word AbstractValue \<times> Warning list" where
  "applyUnary ops NOT_OP n a = (op_not ops a, [])"
| "applyUnary ops NEGATION n a = (op_neg ops a, [])"
| "applyUnary ops SIGN_EXTEND n a = (op_signExtend ops n a, [])"
| "applyUnary ops ZERO_EXTEND n a = (op_zeroExtend ops n a, [])"
| "applyUnary ops TRUNCATE n a = (av_resize n a, [])"
| "applyUnary ops (OTHER_UNARY k) n a = (AbstractValue_default, [UnknownUnaryOperatorKind])"

text \<open>\<^verbatim>\<open>apply\<close> for binary operators (lines 577--619).\<close>

fun applyBinary ::
  "'w::len word AbstractOps \<Rightarrow> BinaryKind \<Rightarrow> 'w word AbstractValue \<Rightarrow> 'w word AbstractValue \<Rightarrow>
   'w word AbstractValue \<times> Warning list" where
  "applyBinary ops AND_OP a b = (op_and ops a b, [])"
| "applyBinary ops OR_OP a b = (op_or ops a b, [])"
| "applyBinary ops XOR_OP a b = (op_xor ops a b, [])"
| "applyBinary ops SHL a b = (op_shl ops a b, [])"
| "applyBinary ops SHR a b = (op_shr ops a b, [])"
| "applyBinary ops SAR a b = (op_sar ops a b, [])"
| "applyBinary ops ADD a b = (op_add ops a b, [])"
| "applyBinary ops SUB a b = (op_sub ops a b, [])"
| "applyBinary ops MUL a b = (op_mul ops a b, [])"
| "applyBinary ops SIGNED_DIV a b = (op_signed_div ops a b, [])"
| "applyBinary ops SIGNED_REM a b = (op_signed_rem ops a b, [])"
| "applyBinary ops UNSIGNED_DIV a b = (op_unsigned_div ops a b, [])"
| "applyBinary ops UNSIGNED_REM a b = (op_unsigned_rem ops a b, [])"
| "applyBinary ops EQUAL a b = (op_equal ops a b, [])"
| "applyBinary ops SIGNED_LESS a b = (op_signed_less ops a b, [])"
| "applyBinary ops SIGNED_LESS_OR_EQUAL a b = (op_signed_less_or_equal ops a b, [])"
| "applyBinary ops UNSIGNED_LESS a b = (op_unsigned_less ops a b, [])"
| "applyBinary ops UNSIGNED_LESS_OR_EQUAL a b = (op_unsigned_less_or_equal ops a b, [])"
| "applyBinary ops (OTHER_BINARY k) a b = (AbstractValue_default, [UnknownBinaryOperatorKind])"

text \<open>The flags of a unary operator (lines 467--486), as an update of its Value.\<close>

definition unaryFlags :: "UnaryKind \<Rightarrow> 'w::len word Value \<Rightarrow> 'w word Value \<Rightarrow> 'w word Value" where
  "unaryFlags k operandValue v =
     (if k = SIGN_EXTEND \<or> k = ZERO_EXTEND \<or> k = TRUNCATE
      then
        let v1 = (if isNotStackOffset operandValue then makeNotStackOffset v
                  else if isStackOffset operandValue then makeStackOffset (stackOffset operandValue) v
                  else v)
        in (if isNotProduct operandValue then makeNotProduct v1
            else if isProduct operandValue then makeProduct v1
            else v1)
      else makeNotProduct (makeNotStackOffset v))"

text \<open>The stack offset of a binary operator (lines 500--545), as an update of its
  Value from the Values of the operands.\<close>

definition binaryStackOffset ::
  "BinaryKind \<Rightarrow> 'w::len word Value \<Rightarrow> 'w word Value \<Rightarrow> 'w word Value \<Rightarrow> 'w word Value" where
  "binaryStackOffset k leftValue rightValue v =
     (case k of
        ADD \<Rightarrow>
          (let v1 = (if isStackOffset leftValue
                     then (if isConcrete (abstractValue rightValue)
                           then makeStackOffset
                                  (stackOffset leftValue + signedValue (asConcrete (abstractValue rightValue))) v
                           else if isNondeterministic (abstractValue rightValue)
                           then makeNotStackOffset v else v)
                     else v);
               v2 = (if isStackOffset rightValue
                     then (if isConcrete (abstractValue leftValue)
                           then makeStackOffset
                                  (stackOffset rightValue + signedValue (asConcrete (abstractValue leftValue))) v1
                           else if isNondeterministic (abstractValue leftValue)
                           then makeNotStackOffset v1 else v1)
                     else v1)
           in if isNotStackOffset leftValue \<and> isNotStackOffset rightValue
              then makeNotStackOffset v2 else v2)
      | SUB \<Rightarrow>
          (if isStackOffset leftValue \<and> isConcrete (abstractValue rightValue)
           then makeStackOffset
                  (stackOffset leftValue - signedValue (asConcrete (abstractValue rightValue))) v
           else if isNotStackOffset leftValue \<or> isNondeterministic (abstractValue rightValue)
           then makeNotStackOffset v
           else v)
      | AND_OP \<Rightarrow>
          (if isStackOffset leftValue \<and> isConcrete (abstractValue rightValue)
           then makeStackOffset
                  (stackOffset leftValue AND sv_value (asConcrete (abstractValue rightValue))) v
           else if isStackOffset rightValue \<and> isConcrete (abstractValue leftValue)
           then makeStackOffset
                  (stackOffset rightValue AND sv_value (asConcrete (abstractValue leftValue))) v
           else if (isNondeterministic (abstractValue leftValue) \<and> isNotStackOffset leftValue) \<or>
                   (isNondeterministic (abstractValue rightValue) \<and> isNotStackOffset rightValue)
           then makeNotStackOffset v
           else v)
      | _ \<Rightarrow> makeNotStackOffset v)"

text \<open>The product flag of a binary operator (lines 548--556).\<close>

definition binaryProduct :: "BinaryKind \<Rightarrow> 'a Value \<Rightarrow> 'a Value" where
  "binaryProduct k v = (if k = MUL \<or> k = SHL then makeProduct v else makeNotProduct v)"

text \<open>What \<^verbatim>\<open>executeUnaryOperator\<close> does once the operand has been executed (lines
  462--486). The Values of a term and of its operand are different objects.\<close>

definition finishUnaryOperator ::
  "'w::len word AbstractOps \<Rightarrow> 'w word Term \<Rightarrow> UnaryKind \<Rightarrow> 'w word Term \<Rightarrow>
   'w word DataflowAnalyzer \<Rightarrow> 'w word DataflowAnalyzer" where
  "finishUnaryOperator ops unary k operand st =
     (let operandValue = getValue st operand;
          r = applyUnary ops k (tsize unary) (abstractValue operandValue);
          st1 = foldl (\<lambda>s w. ncWarning w s) st (snd r)
      in updateValue unary
           (\<lambda>v. unaryFlags k operandValue (setAbstractValue (av_merge (fst r) (abstractValue v)) v))
           st1)"

text \<open>What \<^verbatim>\<open>executeBinaryOperator\<close> does once both operands have been executed (lines
  493--556).\<close>

definition finishBinaryOperator ::
  "'w::len word AbstractOps \<Rightarrow> 'w word Term \<Rightarrow> BinaryKind \<Rightarrow> 'w word Term \<Rightarrow> 'w word Term \<Rightarrow>
   'w word DataflowAnalyzer \<Rightarrow> 'w word DataflowAnalyzer" where
  "finishBinaryOperator ops binary k left right st =
     (let leftValue = getValue st left;
          rightValue = getValue st right;
          r = applyBinary ops k (abstractValue leftValue) (abstractValue rightValue);
          st1 = foldl (\<lambda>s w. ncWarning w s) st (snd r)
      in updateValue binary
           (\<lambda>v. binaryProduct k
                  (binaryStackOffset k leftValue rightValue
                     (setAbstractValue (av_merge (fst r) (abstractValue v)) v)))
           st1)"

section \<open>The term evaluator (lines 205--321)\<close>

definition CHAR_BIT :: "'w::len word" where
  "CHAR_BIT = 8"

definition executeIntConst ::
  "'w::len word Term \<Rightarrow> 'w word SizedValue \<Rightarrow> 'w word DataflowAnalyzer \<Rightarrow> 'w word DataflowAnalyzer" where
  "executeIntConst t c st =
     updateValue t (\<lambda>v. makeNotProduct (makeNotStackOffset (setAbstractValue (AbstractValue_of c) v))) st"

definition executeIntrinsic ::
  "'w::len word Term \<Rightarrow> IntrinsicKind \<Rightarrow> 'w word \<Rightarrow> 'w word \<Rightarrow>
   'w word DataflowAnalyzer \<times> 'w word ReachingDefinitions \<Rightarrow>
   'w word DataflowAnalyzer \<times> 'w word ReachingDefinitions" where
  "executeIntrinsic t k instructionAddr instructionSize s =
     (let st = fst s; ctx = snd s
      in case k of
           UNKNOWN \<Rightarrow>
             (updateValue t (\<lambda>v. makeNotProduct (makeNotStackOffset
                (setAbstractValue (AbstractValue_new (tsize t) (- 1) (- 1)) v))) st, ctx)
         | UNDEFINED \<Rightarrow>
             (updateValue t (\<lambda>v. makeNotProduct (makeNotStackOffset
                (setAbstractValue (AbstractValue_new (tsize t) (- 1) (- 1)) v))) st, ctx)
         | ZERO_STACK_OFFSET \<Rightarrow>
             (updateValue t (\<lambda>v. makeNotProduct (makeStackOffset 0
                (setAbstractValue (AbstractValue_new (tsize t) (- 1) (- 1)) v))) st, ctx)
         | REACHING_SNAPSHOT \<Rightarrow> (putDefinitions t ctx st, ctx)
         | INSTRUCTION_ADDRESS \<Rightarrow>
             (updateValue t (\<lambda>v. makeNotProduct (makeNotStackOffset
                (setAbstractValue (AbstractValue_of (SizedValue_new (tsize t) instructionAddr)) v))) st, ctx)
         | NEXT_INSTRUCTION_ADDRESS \<Rightarrow>
             (updateValue t (\<lambda>v. makeNotProduct (makeNotStackOffset
                (setAbstractValue
                   (AbstractValue_of (SizedValue_new (tsize t) (instructionAddr + instructionSize))) v))) st, ctx)
         | OTHER_INTRINSIC n \<Rightarrow> (ncWarning UnknownIntrinsicKind st, ctx))"

text \<open>The location of a dereference once its address has been executed (lines
  270--296).\<close>

definition finishDereference ::
  "'w::len word Architecture \<Rightarrow> 'w word Term \<Rightarrow> 'w word Term \<Rightarrow> MemoryDomain \<Rightarrow>
   'w word DataflowAnalyzer \<times> 'w word ReachingDefinitions \<Rightarrow>
   'w word DataflowAnalyzer \<times> 'w word ReachingDefinitions" where
  "finishDereference A dereference address domain s =
     (let addressValue = getValue (fst s) address
      in if isConcrete (abstractValue addressValue)
         then (if domain = MEMORY
               then setMemoryLocation A dereference
                      (Location domain (sv_value (asConcrete (abstractValue addressValue)) * CHAR_BIT)
                         (tsize dereference)) s
               else setMemoryLocation A dereference
                      (Location domain (sv_value (asConcrete (abstractValue addressValue)))
                         (tsize dereference)) s)
         else if isStackOffset addressValue
         then setMemoryLocation A dereference
                (Location STACK (stackOffset addressValue * CHAR_BIT) (tsize dereference)) s
         else setMemoryLocation A dereference EmptyLocation s)"

text \<open>The choice once both sub-terms have been executed (lines 310--314): the whole
  Value of the chosen sub-term is copied.\<close>

definition finishChoice ::
  "'w::len word Term \<Rightarrow> 'w word Term \<Rightarrow> 'w word Term \<Rightarrow>
   'w word DataflowAnalyzer \<Rightarrow> 'w word DataflowAnalyzer" where
  "finishChoice choice preferredTerm defaultTerm st =
     (if getDefinitions st preferredTerm \<noteq> []
      then putValue choice (getValue st preferredTerm) st
      else putValue choice (getValue st defaultTerm) st)"

fun execute ::
  "'w::len word Architecture \<Rightarrow> 'w word AbstractOps \<Rightarrow> 'w word Term \<Rightarrow>
   'w word DataflowAnalyzer \<times> 'w word ReachingDefinitions \<Rightarrow>
   'w word DataflowAnalyzer \<times> 'w word ReachingDefinitions" where
  "execute A ops (IntConst i c) s = (executeIntConst (IntConst i c) c (fst s), snd s)"
| "execute A ops (Intrinsic i k a n) s = executeIntrinsic (Intrinsic i k a n) k a n s"
| "execute A ops (MemoryLocationAccess i l) s = setMemoryLocation A (MemoryLocationAccess i l) l s"
| "execute A ops (Dereference i a d) s =
     finishDereference A (Dereference i a d) a d (execute A ops a s)"
| "execute A ops (UnaryOperator i k a) s =
     (let s1 = execute A ops a s
      in (finishUnaryOperator ops (UnaryOperator i k a) k a (fst s1), snd s1))"
| "execute A ops (BinaryOperator i k l r) s =
     (let s1 = execute A ops r (execute A ops l s)
      in (finishBinaryOperator ops (BinaryOperator i k l r) k l r (fst s1), snd s1))"
| "execute A ops (Choice i p d) s =
     (let s1 = execute A ops d (execute A ops p s)
      in (finishChoice (Choice i p d) p d (fst s1), snd s1))"
| "execute A ops (OtherTerm i) s = (ncWarning UnknownTermKind (fst s), snd s)"

section \<open>The statement executor (lines 154--203)\<close>

text \<open>
  Modelled from the spec: the kinds of statements. A callback statement holds a hook
  without arguments; a hook may change the dataflow store, and it returns. The three
  terms of a jump are its condition and the addresses of its two targets, each of which
  may be absent.
\<close>

datatype 'a Statement =
    InlineAssembly
  | Assignment "'a Term" "'a Term"
  | Jump "'a Term option" "'a Term option" "'a Term option"
  | Call "'a Term"
  | Return
  | Touch "'a Term"
  | Callback "'a DataflowAnalyzer \<Rightarrow> 'a DataflowAnalyzer"
  | OtherStatement

definition executeOptional ::
  "'w::len word Architecture \<Rightarrow> 'w word AbstractOps \<Rightarrow> 'w word Term option \<Rightarrow>
   'w word DataflowAnalyzer \<times> 'w word ReachingDefinitions \<Rightarrow>
   'w word DataflowAnalyzer \<times> 'w word ReachingDefinitions" where
  "executeOptional A ops t s = (case t of None \<Rightarrow> s | Some t' \<Rightarrow> execute A ops t' s)"

text \<open>In \<open>Assignment left right\<close> the right side is executed first.\<close>

fun executeStatement ::
  "'w::len word Architecture \<Rightarrow> 'w word AbstractOps \<Rightarrow> 'w word Statement \<Rightarrow>
   'w word DataflowAnalyzer \<times> 'w word ReachingDefinitions \<Rightarrow>
   'w word DataflowAnalyzer \<times> 'w word ReachingDefinitions" where
  "executeStatement A ops InlineAssembly s = s"
| "executeStatement A ops (Assignment left right) s = execute A ops left (execute A ops right s)"
| "executeStatement A ops (Jump condition thenAddress elseAddress) s =
     executeOptional A ops elseAddress
       (executeOptional A ops thenAddress (executeOptional A ops condition s))"
| "executeStatement A ops (Call target) s = execute A ops target s"
| "executeStatement A ops Return s = s"
| "executeStatement A ops (Touch t) s = execute A ops t s"
| "executeStatement A ops (Callback hook) s = (hook (fst s), snd s)"
| "executeStatement A ops OtherStatement s = (ncWarning UnknownStatementKind (fst s), snd s)"

section \<open>The fixpoint driver (lines 70--152)\<close>

record 'a BasicBlock =
  block_id :: nat
  statements :: "'a Statement list"

text \<open>
  Modelled from the spec: a function is the list of its basic blocks, each a list of
  statements. The control flow graph built from them gives the predecessors of a
  block; a term has disappeared when its statement no longer belongs to a basic block.
  Both are computed outside the analyzer and are taken as given.
\<close>

record 'a Function =
  basicBlocks :: "'a BasicBlock list"
  getPredecessors :: "nat \<Rightarrow> nat list"
  disappeared :: "nat \<Rightarrow> bool"

definition notCovered :: "'w::len word DataflowAnalyzer \<Rightarrow> 'w word MemoryLocation \<Rightarrow> 'w word Term \<Rightarrow> bool" where
  "notCovered st mloc t = (\<not> covers (getMemoryLocation st t) mloc)"

text \<open>One round of the loop over the basic blocks (lines 96--118). The state is the
  dataflow store, the out-definitions of the blocks and the counter \<open>nfixpoints\<close>.\<close>

definition analyzeBlock ::
  "'w::len word Architecture \<Rightarrow> 'w word AbstractOps \<Rightarrow> 'w word Function \<Rightarrow>
   'w word DataflowAnalyzer \<times> (nat \<Rightarrow> 'w word ReachingDefinitions) \<times> nat \<Rightarrow> 'w word BasicBlock \<Rightarrow>
   'w word DataflowAnalyzer \<times> (nat \<Rightarrow> 'w word ReachingDefinitions) \<times> nat" where
  "analyzeBlock A ops f s basicBlock =
     (let st = fst s; outDefinitions = fst (snd s); nfixpoints = snd (snd s);
          merged = foldl (\<lambda>c predecessor. merge_rd c (outDefinitions predecessor)) []
                     (getPredecessors f (block_id basicBlock));
          context = filterOut (notCovered st) merged;
          r = foldl (\<lambda>s' statement. executeStatement A ops statement s') (st, context)
                (statements basicBlock)
      in if outDefinitions (block_id basicBlock) \<noteq> snd r
         then (fst r, outDefinitions(block_id basicBlock := snd r), 0)
         else (fst r, outDefinitions, nfixpoints))"

text \<open>The filter over all stored reaching definitions after the blocks (lines
  123--125).\<close>

definition refilter :: "'w::len word DataflowAnalyzer \<Rightarrow> 'w word DataflowAnalyzer" where
  "refilter st = st\<lparr>term2definitions := (\<lambda>i. filterOut (notCovered st) (term2definitions st i))\<rparr>"

text \<open>One pass: all the blocks in order, then the filter (lines 96--125).\<close>

definition runPass ::
  "'w::len word Architecture \<Rightarrow> 'w word AbstractOps \<Rightarrow> 'w word Function \<Rightarrow>
   'w word DataflowAnalyzer \<times> (nat \<Rightarrow> 'w word ReachingDefinitions) \<times> nat \<Rightarrow>
   'w word DataflowAnalyzer \<times> (nat \<Rightarrow> 'w word ReachingDefinitions) \<times> nat" where
  "runPass A ops f s =
     (let r = foldl (analyzeBlock A ops f) s (basicBlocks f)
      in (refilter (fst r), snd r))"

datatype Exit = ConditionFailed | IterationLimit | CancellationRaised

text \<open>
  The loop of \<^verbatim>\<open>analyze\<close> (lines 89--136). \<open>poll n\<close> tells whether the poll of the
  cancellation token after the \<open>n\<close>-th pass raises. Besides the variables of the source
  the state holds a history: for each pass made, whether it reset \<open>nfixpoints\<close>, that
  is, whether the out-definitions of some block changed. The history is only recorded,
  never read. The result says how the loop was left.
\<close>

function analyzeLoop ::
  "'w::len word Architecture \<Rightarrow> 'w word AbstractOps \<Rightarrow> 'w word Function \<Rightarrow> (nat \<Rightarrow> bool) \<Rightarrow>
   nat \<times> nat \<times> 'w word DataflowAnalyzer \<times> (nat \<Rightarrow> 'w word ReachingDefinitions) \<times> bool list \<Rightarrow>
   Exit \<times> nat \<times> nat \<times> 'w word DataflowAnalyzer \<times> (nat \<Rightarrow> 'w word ReachingDefinitions) \<times> bool list" where
  "analyzeLoop A ops f poll (niterations, nfixpoints, st, outDefinitions, history) =
     (if nfixpoints < 3
      then
        (let r = runPass A ops f (st, outDefinitions, Suc nfixpoints);
             history' = history @ [snd (snd r) = 0]
         in if 30 \<le> Suc niterations
            then (IterationLimit, Suc niterations, snd (snd r),
                  ncWarning (FixpointNotReached (Suc niterations)) (fst r), fst (snd r), history')
            else if poll (Suc niterations)
            then (CancellationRaised, Suc niterations, snd (snd r), fst r, fst (snd r), history')
            else analyzeLoop A ops f poll
                   (Suc niterations, snd (snd r), fst r, fst (snd r), history'))
      else (ConditionFailed, niterations, Suc nfixpoints, st, outDefinitions, history))"
  by pat_completeness auto
termination
  by (relation "measure (\<lambda>(A, ops, f, poll, niterations, rest). 30 - niterations)") auto

text \<open>The removal of the terms that disappeared (lines 142--151).\<close>

definition cleanup :: "'a Function \<Rightarrow> 'a DataflowAnalyzer \<Rightarrow> 'a DataflowAnalyzer" where
  "cleanup f st =
     st\<lparr>term2value := (\<lambda>i. if disappeared f i then None else term2value st i),
        term2location := (\<lambda>i. if disappeared f i then EmptyLocation else term2location st i),
        term2definitions :=
          (\<lambda>i. if disappeared f i then []
                else filterOut (\<lambda>L t. disappeared f (tid t)) (term2definitions st i))\<rparr>"

text \<open>\<^verbatim>\<open>analyze\<close>: the result is \<open>None\<close> when a poll of the cancellation token raised
  and the analysis was abandoned, and the dataflow store otherwise.\<close>

definition analyze ::
  "'w::len word Architecture \<Rightarrow> 'w word AbstractOps \<Rightarrow> 'w word Function \<Rightarrow> (nat \<Rightarrow> bool) \<Rightarrow>
   'w word DataflowAnalyzer \<Rightarrow> 'w word DataflowAnalyzer option" where
  "analyze A ops f poll st =
     (let r = analyzeLoop A ops f poll (0, 0, st, (\<lambda>b. []), [])
      in if fst r = CancellationRaised then None
         else Some (cleanup f (fst (snd (snd (snd r))))))"

section \<open>Notions used in the statements and proofs\<close>

text \<open>What one round of the flag loop of \<^verbatim>\<open>mergeReachingValues\<close> (lines 444--448) does to
  the stack-offset state \<open>s\<close> of the term, given the state of the definition: a
  definition that disclaims makes the term disclaim, one that provides an offset hands
  it over unless the term has disclaimed, one that knows nothing changes nothing.\<close>

fun copyStackOffsetState :: "'a TriState \<Rightarrow> 'a TriState \<Rightarrow> 'a TriState" where
  "copyStackOffsetState s Unknown = s"
| "copyStackOffsetState s No = No"
| "copyStackOffsetState s (Yes k) = (case s of No \<Rightarrow> No | _ \<Rightarrow> Yes k)"

text \<open>An abstract value fits the width \<open>n\<close> when it marks no position beyond it, as the
  values built by \<open>AbstractValue_new\<close> and \<open>av_resize\<close> do.\<close>

definition av_fits :: "nat \<Rightarrow> 'w::len word AbstractValue \<Rightarrow> bool" where
  "av_fits n a = (take_bit n (zeroBits a) = zeroBits a \<and> take_bit n (oneBits a) = oneBits a)"

subsection \<open>The passes of the loop, without its counters\<close>

text \<open>What the loop over the blocks computes for one block (lines 98--112): the store
  after the statements of the block and the context they leave, which line 114 compares
  with the stored out-definitions of the block.\<close>

definition blockResult ::
  "'w::len word Architecture \<Rightarrow> 'w word AbstractOps \<Rightarrow> 'w word Function \<Rightarrow>
   'w word DataflowAnalyzer \<Rightarrow> (nat \<Rightarrow> 'w word ReachingDefinitions) \<Rightarrow> 'w word BasicBlock \<Rightarrow>
   'w word DataflowAnalyzer \<times> 'w word ReachingDefinitions" where
  "blockResult A ops f st outDefinitions basicBlock =
     foldl (\<lambda>s' statement. executeStatement A ops statement s')
       (st, filterOut (notCovered st)
              (foldl (\<lambda>c predecessor. merge_rd c (outDefinitions predecessor)) []
                 (getPredecessors f (block_id basicBlock))))
       (statements basicBlock)"

text \<open>A pass over the blocks \<open>bs\<close>, started in the store \<open>st\<close>, produces no change in the
  out-definitions of any block: for each block in turn, the context computed for it is
  what is stored as its out-definitions.\<close>

fun passUnchanged ::
  "'w::len word Architecture \<Rightarrow> 'w word AbstractOps \<Rightarrow> 'w word Function \<Rightarrow>
   'w word DataflowAnalyzer \<Rightarrow> (nat \<Rightarrow> 'w word ReachingDefinitions) \<Rightarrow> 'w word BasicBlock list \<Rightarrow> bool" where
  "passUnchanged A ops f st outDefinitions [] = True"
| "passUnchanged A ops f st outDefinitions (b # bs) =
     (snd (blockResult A ops f st outDefinitions b) = outDefinitions (block_id b) \<and>
      passUnchanged A ops f (fst (blockResult A ops f st outDefinitions b)) outDefinitions bs)"

text \<open>The store and the out-definitions after \<open>k\<close> passes of \<^verbatim>\<open>analyze\<close> that starts in the
  store \<open>st\<close>, when nothing ends the loop before. The counter handed to \<open>runPass\<close> does
  not matter for them.\<close>

fun afterPasses ::
  "'w::len word Architecture \<Rightarrow> 'w word AbstractOps \<Rightarrow> 'w word Function \<Rightarrow>
   'w word DataflowAnalyzer \<Rightarrow> nat \<Rightarrow>
   'w word DataflowAnalyzer \<times> (nat \<Rightarrow> 'w word ReachingDefinitions)" where
  "afterPasses A ops f st 0 = (st, (\<lambda>b. []))"
| "afterPasses A ops f st (Suc k) =
     (let s = afterPasses A ops f st k;
          r = runPass A ops f (fst s, snd s, 1)
      in (fst r, fst (snd r)))"

text \<open>The \<open>k\<close>-th pass (counted from 1) produces no change in the out-definitions of any
  block.\<close>

definition stablePass ::
  "'w::len word Architecture \<Rightarrow> 'w word AbstractOps \<Rightarrow> 'w word Function \<Rightarrow>
   'w word DataflowAnalyzer \<Rightarrow> nat \<Rightarrow> bool" where
  "stablePass A ops f st k =
     (0 < k \<and>
      (let s = afterPasses A ops f st (k - 1)
       in passUnchanged A ops f (fst s) (snd s) (basicBlocks f)))"

text \<open>The number of consecutive passes without a change that end with the \<open>k\<close>-th
  pass.\<close>

fun stableStreak ::
  "'w::len word Architecture \<Rightarrow> 'w word AbstractOps \<Rightarrow> 'w word Function \<Rightarrow>
   'w word DataflowAnalyzer \<Rightarrow> nat \<Rightarrow> nat" where
  "stableStreak A ops f st 0 = 0"
| "stableStreak A ops f st (Suc k) =
     (if stablePass A ops f st (Suc k) then Suc (stableStreak A ops f st k) else 0)"

text \<open>What ends the loop after the \<open>n\<close>-th pass: it is the 30th, or the poll of the
  cancellation token raises, or it is the last of three consecutive passes that produce
  no change in the out-definitions of any block.\<close>

definition loopStops ::
  "'w::len word Architecture \<Rightarrow> 'w word AbstractOps \<Rightarrow> 'w word Function \<Rightarrow> (nat \<Rightarrow> bool) \<Rightarrow>
   'w word DataflowAnalyzer \<Rightarrow> nat \<Rightarrow> bool" where
  "loopStops A ops f poll st n =
     (n = 30 \<or> poll n \<or>
      (stablePass A ops f st n \<and> stablePass A ops f st (n - 1) \<and> stablePass A ops f st (n - 2)))"

subsection \<open>The terms of a function and the values they may start with\<close>

text \<open>A term with all its sub-terms, the terms that a statement hands to \<^verbatim>\<open>execute\<close>, and
  all the terms of a function.\<close>

fun subterms :: "'a Term \<Rightarrow> 'a Term list" where
  "subterms (IntConst i c) = [IntConst i c]"
| "subterms (Intrinsic i k a n) = [Intrinsic i k a n]"
| "subterms (MemoryLocationAccess i l) = [MemoryLocationAccess i l]"
| "subterms (Dereference i a d) = Dereference i a d # subterms a"
| "subterms (UnaryOperator i k a) = UnaryOperator i k a # subterms a"
| "subterms (BinaryOperator i k l r) = BinaryOperator i k l r # subterms l @ subterms r"
| "subterms (Choice i p d) = Choice i p d # subterms p @ subterms d"
| "subterms (OtherTerm i) = [OtherTerm i]"

fun statementTerms :: "'a Statement \<Rightarrow> 'a Term list" where
  "statementTerms InlineAssembly = []"
| "statementTerms (Assignment left right) = [right, left]"
| "statementTerms (Jump condition thenAddress elseAddress) =
     (case condition of None \<Rightarrow> [] | Some t \<Rightarrow> [t]) @
     (case thenAddress of None \<Rightarrow> [] | Some t \<Rightarrow> [t]) @
     (case elseAddress of None \<Rightarrow> [] | Some t \<Rightarrow> [t])"
| "statementTerms (Call target) = [target]"
| "statementTerms Return = []"
| "statementTerms (Touch t) = [t]"
| "statementTerms (Callback hook) = []"
| "statementTerms OtherStatement = []"

definition functionTerms :: "'a Function \<Rightarrow> 'a Term list" where
  "functionTerms f =
     concat (map subterms (concat (map statementTerms (concat (map statements (basicBlocks f))))))"

text \<open>In the source a term is an object of its own: no two terms of a function share
  an identity.\<close>

definition ownIdentities :: "'a Function \<Rightarrow> bool" where
  "ownIdentities f = distinct (map tid (functionTerms f))"

text \<open>A hook of a callback statement may do anything to the store; this says that it
  leaves the Values of the terms as they are.\<close>

fun hookKeepsValues :: "'a Statement \<Rightarrow> bool" where
  "hookKeepsValues (Callback hook) = (\<forall>st. term2value (hook st) = term2value st)"
| "hookKeepsValues s = True"

definition hooksKeepValues :: "'a Function \<Rightarrow> bool" where
  "hooksKeepValues f = (\<forall>b \<in> set (basicBlocks f). \<forall>s \<in> set (statements b). hookKeepsValues s)"

fun isChoice :: "'a Term \<Rightarrow> bool" where
  "isChoice (Choice i p d) = True"
| "isChoice t = False"

fun isMemoryTerm :: "'a Term \<Rightarrow> bool" where
  "isMemoryTerm (MemoryLocationAccess i l) = True"
| "isMemoryTerm (Dereference i a d) = True"
| "isMemoryTerm t = False"

text \<open>The abstract value that \<^verbatim>\<open>execute\<close> assigns to a constant and to an intrinsic (lines
  209--253), whatever the store holds: these terms take no value from other terms.\<close>

fun assignedValue :: "'w::len word Term \<Rightarrow> 'w word AbstractValue option" where
  "assignedValue (IntConst i c) = Some (AbstractValue_of c)"
| "assignedValue (Intrinsic i k a n) =
     (case k of
        UNKNOWN \<Rightarrow> Some (AbstractValue_new (term_size i) (- 1) (- 1))
      | UNDEFINED \<Rightarrow> Some (AbstractValue_new (term_size i) (- 1) (- 1))
      | ZERO_STACK_OFFSET \<Rightarrow> Some (AbstractValue_new (term_size i) (- 1) (- 1))
      | REACHING_SNAPSHOT \<Rightarrow> None
      | INSTRUCTION_ADDRESS \<Rightarrow> Some (AbstractValue_of (SizedValue_new (term_size i) a))
      | NEXT_INSTRUCTION_ADDRESS \<Rightarrow> Some (AbstractValue_of (SizedValue_new (term_size i) (a + n)))
      | OTHER_INTRINSIC m \<Rightarrow> None)"
| "assignedValue (MemoryLocationAccess i l) = None"
| "assignedValue (Dereference i a d) = None"
| "assignedValue (UnaryOperator i k a) = None"
| "assignedValue (BinaryOperator i k l r) = None"
| "assignedValue (Choice i p d) = None"
| "assignedValue (OtherTerm i) = None"

text \<open>What a store may hold for a term before an analysis: for a constant or an
  intrinsic nothing that its assigned value does not allow, for a memory location
  access or a dereference nothing beyond the size of the term. A store in which the
  term has no Value yet is of this kind.\<close>

definition admissible :: "'w::len word DataflowAnalyzer \<Rightarrow> 'w word Term \<Rightarrow> bool" where
  "admissible st t =
     (case assignedValue t of
        Some a \<Rightarrow> av_le (abstractValue (getValue st t)) a
      | None \<Rightarrow> \<not> isMemoryTerm t \<or> av_fits (tsize t) (abstractValue (getValue st t)))"

text \<open>The value of \<open>t\<close> in \<open>st'\<close> is at least as imprecise as in \<open>st\<close>, and stays
  admissible, if it was.\<close>

definition notBelow ::
  "'w::len word DataflowAnalyzer \<Rightarrow> 'w word DataflowAnalyzer \<Rightarrow> 'w word Term \<Rightarrow> bool" where
  "notBelow st st' t =
     (admissible st t \<longrightarrow>
        admissible st' t \<and> av_le (abstractValue (getValue st t)) (abstractValue (getValue st' t)))"

section \<open>Example inputs\<close>

text \<open>The store before the first pass, a little-endian architecture without global
  memory, two registers and some terms, used to run the definitions.\<close>

definition emptyStore :: "'w::len word DataflowAnalyzer" where
  "emptyStore = \<lparr>term2value = (\<lambda>i. None), term2location = (\<lambda>i. EmptyLocation),
                 term2definitions = (\<lambda>i. []), warnings = []\<rparr>"

definition exampleArchitecture :: "64 word Architecture" where
  "exampleArchitecture = \<lparr>byteOrder = LittleEndian, isGlobalMemory = (\<lambda>L. False)\<rparr>"

definition exampleRegister :: "64 word MemoryLocation" where
  "exampleRegister = Location (OTHER_DOMAIN 0) 0 32"

definition exampleRegister2 :: "64 word MemoryLocation" where
  "exampleRegister2 = Location (OTHER_DOMAIN 0) 64 32"

definition readWriteKillAccess :: "64 word Term" where
  "readWriteKillAccess =
     MemoryLocationAccess \<lparr>term_id = 1, term_size = 32, isRead = True, isWrite = True, isKill = True\<rparr>
       exampleRegister"

definition movedWrite :: "64 word Term" where
  "movedWrite =
     MemoryLocationAccess \<lparr>term_id = 1, term_size = 32, isRead = False, isWrite = True, isKill = False\<rparr>
       exampleRegister2"

definition otherWrite :: "64 word Term" where
  "otherWrite =
     MemoryLocationAccess \<lparr>term_id = 2, term_size = 32, isRead = False, isWrite = True, isKill = False\<rparr>
       exampleRegister2"

text \<open>A store in which \<open>readWriteKillAccess\<close> already has a location and reaching
  definitions, and a context that holds a definition by it and one by another term.\<close>

definition visitedStore :: "64 word DataflowAnalyzer" where
  "visitedStore =
     emptyStore\<lparr>term2location := (\<lambda>i. if i = 1 then exampleRegister else EmptyLocation),
                term2definitions := (\<lambda>i. if i = 1 then [(exampleRegister, [readWriteKillAccess])] else [])\<rparr>"

definition visitedContext :: "64 word ReachingDefinitions" where
  "visitedContext = [(exampleRegister, [readWriteKillAccess]), (exampleRegister2, [otherWrite])]"

text \<open>Values: the stack pointer itself, a stack pointer plus \<open>k\<close>, a constant, a value
  of which nothing is known, a nondeterministic value that is no stack offset, and a
  constant that is marked as a stack offset.\<close>

definition stackPointerValue :: "64 word Value" where
  "stackPointerValue =
     \<lparr>abstractValue = AbstractValue_new 64 (- 1) (- 1), stackOffsetState = Yes 0, productState = No\<rparr>"

definition offsetValue :: "64 word \<Rightarrow> 64 word Value" where
  "offsetValue k =
     \<lparr>abstractValue = AbstractValue_new 64 (- 1) (- 1), stackOffsetState = Yes k, productState = No\<rparr>"

definition constantValue :: "64 word \<Rightarrow> 64 word Value" where
  "constantValue c =
     \<lparr>abstractValue = AbstractValue_of (SizedValue_new 64 c), stackOffsetState = No, productState = No\<rparr>"

definition unknownValue :: "64 word Value" where
  "unknownValue =
     \<lparr>abstractValue = AbstractValue_new 64 (- 1) (- 1), stackOffsetState = Unknown, productState = Unknown\<rparr>"

definition nondeterministicValue :: "64 word Value" where
  "nondeterministicValue =
     \<lparr>abstractValue = AbstractValue_new 64 (- 1) (- 1), stackOffsetState = No, productState = No\<rparr>"

definition offsetConstantValue :: "64 word \<Rightarrow> 64 word \<Rightarrow> 64 word Value" where
  "offsetConstantValue k c =
     \<lparr>abstractValue = AbstractValue_of (SizedValue_new 64 c), stackOffsetState = Yes k, productState = No\<rparr>"

text \<open>A 64-bit register with two writes and a read of it, the upper half of the
  register, a big-endian architecture, and a store that gives the two writes their
  Values.\<close>

definition wideRegister :: "64 word MemoryLocation" where
  "wideRegister = Location (OTHER_DOMAIN 0) 128 64"

definition upperHalf :: "64 word MemoryLocation" where
  "upperHalf = Location (OTHER_DOMAIN 0) 160 32"

definition bigEndianArchitecture :: "64 word Architecture" where
  "bigEndianArchitecture = \<lparr>byteOrder = BigEndian, isGlobalMemory = (\<lambda>L. False)\<rparr>"

definition firstDefinition :: "64 word Term" where
  "firstDefinition =
     MemoryLocationAccess \<lparr>term_id = 10, term_size = 64, isRead = False, isWrite = True, isKill = False\<rparr>
       wideRegister"

definition secondDefinition :: "64 word Term" where
  "secondDefinition =
     MemoryLocationAccess \<lparr>term_id = 11, term_size = 64, isRead = False, isWrite = True, isKill = False\<rparr>
       wideRegister"

definition wideRead :: "64 word Term" where
  "wideRead =
     MemoryLocationAccess \<lparr>term_id = 12, term_size = 64, isRead = True, isWrite = False, isKill = False\<rparr>
       wideRegister"

definition storeWith :: "64 word Value \<Rightarrow> 64 word Value \<Rightarrow> 64 word DataflowAnalyzer" where
  "storeWith v1 v2 =
     emptyStore\<lparr>term2value := (\<lambda>i. if i = 10 then Some v1 else if i = 11 then Some v2 else None),
                term2location := (\<lambda>i. wideRegister)\<rparr>"

text \<open>Operators on abstract values that know nothing (only the complement is
  exact), terms over the first register, and functions to run the driver on: one whose
  block reads a choice and then writes the register it prefers, in a loop; one without
  blocks; one whose callback counts in the Value of a read; and one in which the
  address of a write drifts with that count.\<close>

definition exampleOps :: "64 word AbstractOps" where
  "exampleOps =
     \<lparr>op_not = (\<lambda>a. a\<lparr>zeroBits := oneBits a, oneBits := zeroBits a\<rparr>),
      op_neg = (\<lambda>a. AbstractValue_new (av_size a) (- 1) (- 1)),
      op_signExtend = (\<lambda>n a. AbstractValue_new n (- 1) (- 1)),
      op_zeroExtend = (\<lambda>n a. AbstractValue_new n (- 1) (- 1)),
      op_and = (\<lambda>a b. AbstractValue_new (av_size a) (- 1) (- 1)),
      op_or = (\<lambda>a b. AbstractValue_new (av_size a) (- 1) (- 1)),
      op_xor = (\<lambda>a b. AbstractValue_new (av_size a) (- 1) (- 1)),
      op_shl = (\<lambda>a b. AbstractValue_new (av_size a) (- 1) (- 1)),
      op_shr = (\<lambda>a b. AbstractValue_new (av_size a) (- 1) (- 1)),
      op_sar = (\<lambda>a b. AbstractValue_new (av_size a) (- 1) (- 1)),
      op_add = (\<lambda>a b. AbstractValue_new (av_size a) (- 1) (- 1)),
      op_sub = (\<lambda>a b. AbstractValue_new (av_size a) (- 1) (- 1)),
      op_mul = (\<lambda>a b. AbstractValue_new (av_size a) (- 1) (- 1)),
      op_signed_div = (\<lambda>a b. AbstractValue_new (av_size a) (- 1) (- 1)),
      op_signed_rem = (\<lambda>a b. AbstractValue_new (av_size a) (- 1) (- 1)),
      op_unsigned_div = (\<lambda>a b. AbstractValue_new (av_size a) (- 1) (- 1)),
      op_unsigned_rem = (\<lambda>a b. AbstractValue_new (av_size a) (- 1) (- 1)),
      op_equal = (\<lambda>a b. AbstractValue_new 1 (- 1) (- 1)),
      op_signed_less = (\<lambda>a b. AbstractValue_new 1 (- 1) (- 1)),
      op_signed_less_or_equal = (\<lambda>a b. AbstractValue_new 1 (- 1) (- 1)),
      op_unsigned_less = (\<lambda>a b. AbstractValue_new 1 (- 1) (- 1)),
      op_unsigned_less_or_equal = (\<lambda>a b. AbstractValue_new 1 (- 1) (- 1))\<rparr>"

definition registerRead :: "64 word Term" where
  "registerRead =
     MemoryLocationAccess \<lparr>term_id = 20, term_size = 32, isRead = True, isWrite = False, isKill = False\<rparr>
       exampleRegister"

definition constantFive :: "64 word Term" where
  "constantFive =
     IntConst \<lparr>term_id = 21, term_size = 32, isRead = True, isWrite = False, isKill = False\<rparr>
       (SizedValue_new 32 5)"

definition choiceTerm :: "64 word Term" where
  "choiceTerm =
     Choice \<lparr>term_id = 22, term_size = 32, isRead = True, isWrite = False, isKill = False\<rparr>
       registerRead constantFive"

definition registerWrite :: "64 word Term" where
  "registerWrite =
     MemoryLocationAccess \<lparr>term_id = 23, term_size = 32, isRead = False, isWrite = True, isKill = False\<rparr>
       exampleRegister"

definition loopBlock :: "64 word BasicBlock" where
  "loopBlock = \<lparr>block_id = 0, statements = [Touch choiceTerm, Touch registerWrite]\<rparr>"

definition loopFunction :: "64 word Function" where
  "loopFunction =
     \<lparr>basicBlocks = [loopBlock],
      getPredecessors = (\<lambda>b. [0]),
      disappeared = (\<lambda>i. False)\<rparr>"



definition emptyFunction :: "64 word Function" where
  "emptyFunction = \<lparr>basicBlocks = [], getPredecessors = (\<lambda>b. []), disappeared = (\<lambda>i. False)\<rparr>"

definition counterRead :: "64 word Term" where
  "counterRead =
     MemoryLocationAccess \<lparr>term_id = 40, term_size = 32, isRead = True, isWrite = False, isKill = False\<rparr>
       exampleRegister2"

definition bumpHook :: "64 word DataflowAnalyzer \<Rightarrow> 64 word DataflowAnalyzer" where
  "bumpHook =
     updateValue counterRead
       (\<lambda>v. setAbstractValue
              (AbstractValue_of (SizedValue_new 32 (sv_value (asConcrete (abstractValue v)) + 1))) v)"

definition countingBlock :: "64 word BasicBlock" where
  "countingBlock = \<lparr>block_id = 0, statements = [Touch counterRead, Callback bumpHook]\<rparr>"

definition countingFunction :: "64 word Function" where
  "countingFunction =
     \<lparr>basicBlocks = [countingBlock],
      getPredecessors = (\<lambda>b. []),
      disappeared = (\<lambda>i. False)\<rparr>"

definition driftingWrite :: "64 word Term" where
  "driftingWrite =
     Dereference \<lparr>term_id = 41, term_size = 32, isRead = False, isWrite = True, isKill = False\<rparr>
       counterRead MEMORY"

definition driftingFunction :: "64 word Function" where
  "driftingFunction =
     \<lparr>basicBlocks = [\<lparr>block_id = 0, statements = [Callback bumpHook, Touch driftingWrite]\<rparr>],
      getPredecessors = (\<lambda>b. []),
      disappeared = (\<lambda>i. False)\<rparr>"



definition constantAddressRead :: "64 word Term" where
  "constantAddressRead =
     Dereference \<lparr>term_id = 26, term_size = 32, isRead = True, isWrite = False, isKill = False\<rparr>
       constantFive MEMORY"

text \<open>Dereferences of the stack pointer, of a constant in a register bank and of a
  register of which nothing is known; a store and a context in which the write of the
  first register has been executed.\<close>

definition stackPointer :: "64 word Term" where
  "stackPointer =
     Intrinsic \<lparr>term_id = 27, term_size = 64, isRead = True, isWrite = False, isKill = False\<rparr>
       ZERO_STACK_OFFSET 4096 4"

definition stackRead :: "64 word Term" where
  "stackRead =
     Dereference \<lparr>term_id = 28, term_size = 32, isRead = True, isWrite = False, isKill = False\<rparr>
       stackPointer MEMORY"

definition registerBankRead :: "64 word Term" where
  "registerBankRead =
     Dereference \<lparr>term_id = 29, term_size = 32, isRead = True, isWrite = False, isKill = False\<rparr>
       constantFive (OTHER_DOMAIN 1)"

definition unresolvedRead :: "64 word Term" where
  "unresolvedRead =
     Dereference \<lparr>term_id = 30, term_size = 32, isRead = True, isWrite = False, isKill = False\<rparr>
       registerRead MEMORY"

definition reachedContext :: "64 word ReachingDefinitions" where
  "reachedContext = [(exampleRegister, [registerWrite])]"

definition reachedStore :: "64 word DataflowAnalyzer" where
  "reachedStore = emptyStore\<lparr>term2location := (\<lambda>i. if i = 23 then exampleRegister else EmptyLocation)\<rparr>"

text \<open>A store in which the read of the wide register has a Value of its own besides
  those of the two writes; a store in which the complement of the constant already has
  a value; the complement of the choice, and a function whose block evaluates it and
  then writes the register that the choice prefers, in a loop.\<close>

definition storeWithOwn :: "64 word Value \<Rightarrow> 64 word Value \<Rightarrow> 64 word Value \<Rightarrow> 64 word DataflowAnalyzer" where
  "storeWithOwn v0 v1 v2 = putValue wideRead v0 (storeWith v1 v2)"

definition seenStore :: "64 word DataflowAnalyzer" where
  "seenStore =
     emptyStore\<lparr>term2value :=
       (\<lambda>i. if i = 24
             then Some \<lparr>abstractValue = AbstractValue_new 32 3 12, stackOffsetState = No, productState = No\<rparr>
             else None)\<rparr>"

definition negatedChoice :: "64 word Term" where
  "negatedChoice =
     UnaryOperator \<lparr>term_id = 31, term_size = 32, isRead = True, isWrite = False, isKill = False\<rparr>
       NOT_OP choiceTerm"

definition negatingFunction :: "64 word Function" where
  "negatingFunction =
     \<lparr>basicBlocks = [\<lparr>block_id = 0, statements = [Touch negatedChoice, Touch registerWrite]\<rparr>],
      getPredecessors = (\<lambda>b. [0]),
      disappeared = (\<lambda>i. False)\<rparr>"

section \<open>Properties\<close>

subsection \<open>Access to the store\<close>

lemma mask_64: "mask 64 = (18446744073709551615 :: 64 word)"
  by (simp add: mask_eq_exp_minus_1)

lemma getValue_putValue: "getValue (putValue c v st) t = (if tid t = tid c then v else getValue st t)"
  by (simp add: getValue_def putValue_def)

lemma getDefinitions_putValue: "getDefinitions (putValue c v st) t = getDefinitions st t"
  by (simp add: getDefinitions_def putValue_def)

subsection \<open>Reads without reaching definitions\<close>

text \<open>
  Claim C10. When the set of reaching definitions handed to \<^verbatim>\<open>mergeReachingValues\<close> is
  empty, the call returns at once: the store is the one it was given, so the abstract
  value, the stack-offset state and the product state of the read term are what they
  were before the call.
\<close>

theorem mergeReachingValues_empty_unchanged:
  "mergeReachingValues A t L [] st = st
   \<and> abstractValue (getValue (mergeReachingValues A t L [] st) t) = abstractValue (getValue st t)
   \<and> stackOffsetState (getValue (mergeReachingValues A t L [] st) t) = stackOffsetState (getValue st t)
   \<and> productState (getValue (mergeReachingValues A t L [] st) t) = productState (getValue st t)"
  by (simp add: mergeReachingValues_def)

subsection \<open>Choice\<close>

text \<open>
  Claim C8. After a choice term has been executed, which executes the preferred and
  then the default sub-term, the Value of the choice is the Value of the preferred
  sub-term when the reaching definitions stored for the preferred sub-term are not
  empty, and the Value of the default sub-term otherwise. This holds both for the
  Values as they stand right after the two sub-terms have been executed and for the
  Values in the final store.
\<close>

theorem execute_Choice_value:
  "getValue (fst (execute A ops (Choice i p d) s)) (Choice i p d) =
     (if getDefinitions (fst (execute A ops d (execute A ops p s))) p \<noteq> []
      then getValue (fst (execute A ops d (execute A ops p s))) p
      else getValue (fst (execute A ops d (execute A ops p s))) d)
   \<and> getValue (fst (execute A ops (Choice i p d) s)) (Choice i p d) =
     (if getDefinitions (fst (execute A ops (Choice i p d) s)) p \<noteq> []
      then getValue (fst (execute A ops (Choice i p d) s)) p
      else getValue (fst (execute A ops (Choice i p d) s)) d)"
  by (simp add: Let_def finishChoice_def getValue_putValue getDefinitions_putValue)

theorem execute_Choice_value_witness:
  "getValue (fst (execute exampleArchitecture exampleOps choiceTerm (emptyStore, []))) choiceTerm
     = \<lparr>abstractValue = \<lparr>av_size = 32, zeroBits = 4294967290, oneBits = 5\<rparr>,
        stackOffsetState = No, productState = No\<rparr>
   \<and> getValue (fst (execute exampleArchitecture exampleOps choiceTerm (reachedStore, reachedContext))) choiceTerm
     = \<lparr>abstractValue = \<lparr>av_size = 32, zeroBits = 0, oneBits = 0\<rparr>,
        stackOffsetState = Unknown, productState = Unknown\<rparr>"
proof -
  have d1: "getDefinitions
              (fst (execute exampleArchitecture exampleOps constantFive
                     (execute exampleArchitecture exampleOps registerRead (emptyStore, [])))) registerRead = []"
    by code_simp
  have v1: "getValue
              (fst (execute exampleArchitecture exampleOps constantFive
                     (execute exampleArchitecture exampleOps registerRead (emptyStore, [])))) constantFive
            = \<lparr>abstractValue = \<lparr>av_size = 32, zeroBits = 4294967290, oneBits = 5\<rparr>,
               stackOffsetState = No, productState = No\<rparr>"
    by code_simp
  have d2: "getDefinitions
              (fst (execute exampleArchitecture exampleOps constantFive
                     (execute exampleArchitecture exampleOps registerRead (reachedStore, reachedContext))))
              registerRead = [(exampleRegister, [registerWrite])]"
    by code_simp
  have v2: "getValue
              (fst (execute exampleArchitecture exampleOps constantFive
                     (execute exampleArchitecture exampleOps registerRead (reachedStore, reachedContext))))
              registerRead
            = \<lparr>abstractValue = \<lparr>av_size = 32, zeroBits = 0, oneBits = 0\<rparr>,
               stackOffsetState = Unknown, productState = Unknown\<rparr>"
    by code_simp
  show ?thesis
    unfolding choiceTerm_def
    by (simp only: execute_Choice_value [THEN conjunct1] d1 v1 d2 v2) simp
qed

subsection \<open>What the bookkeeper leaves untouched\<close>

lemma term2location_updateValue [simp]: "term2location (updateValue t g st) = term2location st"
  by (simp add: updateValue_def putValue_def)

lemma term2definitions_updateValue [simp]: "term2definitions (updateValue t g st) = term2definitions st"
  by (simp add: updateValue_def putValue_def)

lemma warnings_updateValue [simp]: "warnings (updateValue t g st) = warnings st"
  by (simp add: updateValue_def putValue_def)

lemma term2value_updateValue_other:
  "j \<noteq> tid t \<Longrightarrow> term2value (updateValue t g st) j = term2value st j"
  by (simp add: updateValue_def putValue_def)

lemma mergeDefinitionFlags_frame:
  "term2location (mergeDefinitionFlags t st d) = term2location st
   \<and> term2definitions (mergeDefinitionFlags t st d) = term2definitions st
   \<and> warnings (mergeDefinitionFlags t st d) = warnings st
   \<and> (\<forall>j. j \<noteq> tid t \<longrightarrow> term2value (mergeDefinitionFlags t st d) j = term2value st j)"
  by (simp add: mergeDefinitionFlags_def Let_def term2value_updateValue_other)

lemma foldl_mergeDefinitionFlags_frame:
  "term2location (foldl (mergeDefinitionFlags t) st ds) = term2location st
   \<and> term2definitions (foldl (mergeDefinitionFlags t) st ds) = term2definitions st
   \<and> warnings (foldl (mergeDefinitionFlags t) st ds) = warnings st
   \<and> (\<forall>j. j \<noteq> tid t \<longrightarrow> term2value (foldl (mergeDefinitionFlags t) st ds) j = term2value st j)"
proof (induction ds arbitrary: st)
  case Nil
  show ?case by simp
next
  case (Cons d ds)
  show ?case
    using Cons.IH [of "mergeDefinitionFlags t st d"] mergeDefinitionFlags_frame [of t st d]
    by simp
qed

lemma mergeReachingValues_frame:
  "term2location (mergeReachingValues A t L rd st) = term2location st
   \<and> term2definitions (mergeReachingValues A t L rd st) = term2definitions st
   \<and> warnings (mergeReachingValues A t L rd st) = warnings st
   \<and> (\<forall>j. j \<noteq> tid t \<longrightarrow> term2value (mergeReachingValues A t L rd st) j = term2value st j)"
  by (simp add: mergeReachingValues_def Let_def foldl_mergeDefinitionFlags_frame
      term2value_updateValue_other split: option.split)

lemma getDefinitions_putDefinitions: "getDefinitions (putDefinitions t rd st) t = rd"
  by (simp add: getDefinitions_def putDefinitions_def)

lemma getDefinitions_mergeReachingValues:
  "getDefinitions (mergeReachingValues A t L rd st) u = getDefinitions st u"
  by (simp add: getDefinitions_def mergeReachingValues_frame)

subsection \<open>Reaching definitions as sets of chunks\<close>

lemma set_insertChunk: "set (insertChunk c rd) = insert c (set rd)"
  by (induction rd) auto

lemma set_killDefinitions: "set (killDefinitions L rd) = {c \<in> set rd. \<not> covers L (fst c)}"
  by (auto simp: killDefinitions_def)

lemma set_addDefinition:
  "set (addDefinition L t rd) = insert (L, [t]) {c \<in> set rd. \<not> covers L (fst c)}"
  by (simp add: addDefinition_def set_insertChunk set_killDefinitions)

lemma set_project: "set (project L rd) = {c \<in> set rd. covers L (fst c)}"
  by (auto simp: project_def)

lemma definers_filterOut_subset: "definers (filterOut pred rd) \<subseteq> definers rd"
  by (auto simp: definers_def filterOut_def)

lemma definers_filterOut_self: "tid t \<notin> definers (filterOut (\<lambda>L d. tid d = tid t) rd)"
  by (auto simp: definers_def filterOut_def)

lemma definers_project_subset: "definers (project L rd) \<subseteq> definers rd"
  by (auto simp: definers_def project_def)

subsection \<open>setMemoryLocation\<close>

lemma rememberLocation_location:
  "term2location (fst (rememberLocation t new s)) (tid t) = new"
  by (simp add: rememberLocation_def Let_def getMemoryLocation_def)

lemma setMemoryLocation_location:
  "getMemoryLocation (fst (setMemoryLocation A t new s)) t = new"
  by (simp add: setMemoryLocation_def Let_def getMemoryLocation_def putDefinitions_def
      mergeReachingValues_frame rememberLocation_location)

lemma snd_rememberLocation:
  "snd (rememberLocation t new s) =
     (if getMemoryLocation (fst s) t \<noteq> new \<and> getMemoryLocation (fst s) t \<noteq> EmptyLocation \<and> isWrite (info t)
      then filterOut (\<lambda>L d. tid d = tid t) (snd s) else snd s)"
  by (simp add: rememberLocation_def Let_def)

lemma definers_rememberLocation: "definers (snd (rememberLocation t new s)) \<subseteq> definers (snd s)"
  by (simp add: snd_rememberLocation definers_filterOut_subset)

lemma snd_setMemoryLocation:
  "snd (setMemoryLocation A t new s) =
     (if new \<noteq> EmptyLocation \<and> \<not> isGlobalMemory A new
      then (if isKill (info t) then killDefinitions new else id)
             ((if isWrite (info t) then addDefinition new t else id) (snd (rememberLocation t new s)))
      else snd (rememberLocation t new s))"
  by (simp add: setMemoryLocation_def Let_def)

lemma getDefinitions_setMemoryLocation_read:
  "new \<noteq> EmptyLocation \<Longrightarrow> \<not> isGlobalMemory A new \<Longrightarrow> isRead (info t) \<Longrightarrow>
   getDefinitions (fst (setMemoryLocation A t new s)) t = project new (snd (rememberLocation t new s))"
  by (simp add: setMemoryLocation_def Let_def getDefinitions_mergeReachingValues
      getDefinitions_putDefinitions)

lemma set_setMemoryLocation_subset:
  "set (snd (setMemoryLocation A t new s)) \<subseteq> insert (new, [t]) (set (snd (rememberLocation t new s)))"
  by (auto simp: snd_setMemoryLocation set_killDefinitions set_addDefinition)

text \<open>
  Claim C4. After a dereference has been executed, its stored memory location is
  determined by the Value of its address, read after the address has been executed:
  when the abstract value of the address is concrete, the location is
  (MEMORY, value * CHAR_BIT, size) in the domain MEMORY and (domain, value, size), without
  scaling, in any other domain; otherwise, when the address is a stack offset k, it is
  (STACK, k * CHAR_BIT, size); otherwise it is the empty location.
\<close>

theorem execute_Dereference_location:
  "getMemoryLocation (fst (execute A ops (Dereference i a d) s)) (Dereference i a d) =
     (if isConcrete (abstractValue (getValue (fst (execute A ops a s)) a))
      then (if d = MEMORY
            then Location MEMORY
                   (sv_value (asConcrete (abstractValue (getValue (fst (execute A ops a s)) a))) * CHAR_BIT)
                   (term_size i)
            else Location d
                   (sv_value (asConcrete (abstractValue (getValue (fst (execute A ops a s)) a))))
                   (term_size i))
      else (case stackOffsetState (getValue (fst (execute A ops a s)) a) of
              Yes k \<Rightarrow> Location STACK (k * CHAR_BIT) (term_size i)
            | _ \<Rightarrow> EmptyLocation))"
  by (simp add: finishDereference_def Let_def setMemoryLocation_location tsize_def
      isStackOffset_def stackOffset_def split: TriState.split)

theorem execute_Dereference_location_witness:
  "getMemoryLocation (fst (execute exampleArchitecture exampleOps constantAddressRead (emptyStore, [])))
     constantAddressRead = Location MEMORY 40 32
   \<and> getMemoryLocation (fst (execute exampleArchitecture exampleOps registerBankRead (emptyStore, [])))
     registerBankRead = Location (OTHER_DOMAIN 1) 5 32
   \<and> getMemoryLocation (fst (execute exampleArchitecture exampleOps stackRead (emptyStore, [])))
     stackRead = Location STACK 0 32
   \<and> getMemoryLocation (fst (execute exampleArchitecture exampleOps unresolvedRead (emptyStore, [])))
     unresolvedRead = EmptyLocation"
proof -
  have a1: "getValue (fst (execute exampleArchitecture exampleOps constantFive (emptyStore, []))) constantFive
              = \<lparr>abstractValue = \<lparr>av_size = 32, zeroBits = 4294967290, oneBits = 5\<rparr>,
                 stackOffsetState = No, productState = No\<rparr>"
    by code_simp
  have a2: "getValue (fst (execute exampleArchitecture exampleOps stackPointer (emptyStore, []))) stackPointer
              = \<lparr>abstractValue = \<lparr>av_size = 64, zeroBits = - 1, oneBits = - 1\<rparr>,
                 stackOffsetState = Yes 0, productState = No\<rparr>"
    by code_simp
  have a3: "getValue (fst (execute exampleArchitecture exampleOps registerRead (emptyStore, []))) registerRead
              = \<lparr>abstractValue = \<lparr>av_size = 32, zeroBits = 0, oneBits = 0\<rparr>,
                 stackOffsetState = Unknown, productState = Unknown\<rparr>"
    by code_simp
  have m32: "mask 32 = (4294967295 :: 64 word)"
    by (simp add: mask_eq_exp_minus_1)
  show ?thesis
    unfolding constantAddressRead_def registerBankRead_def stackRead_def unresolvedRead_def
    by (simp only: execute_Dereference_location a1 a2 a3)
       (simp add: isConcrete_def asConcrete_def CHAR_BIT_def m32 mask_64)
qed

text \<open>
  Claim C7. In \<^verbatim>\<open>setMemoryLocation\<close>: (1) when the stored location of the term differs
  from the new one, the new one is stored. (2) When moreover the term is a write and
  its old location was not empty, the first step replaces the context by the context
  without any pair whose defining term is this term; in the context that the call
  returns, the only chunk that can name the term is the one just added for the new
  location, and there is none when the new location is empty or global. (3) When the
  new location is empty or global, and the term is a read whose old location was not
  empty, the reaching definitions stored for the term are cleared.
\<close>

theorem setMemoryLocation_bookkeeping:
  "(getMemoryLocation (fst s) t \<noteq> new \<longrightarrow>
      getMemoryLocation (fst (setMemoryLocation A t new s)) t = new)
   \<and> (getMemoryLocation (fst s) t \<noteq> new \<and> isWrite (info t) \<and>
       getMemoryLocation (fst s) t \<noteq> EmptyLocation \<longrightarrow>
         snd (rememberLocation t new s) = filterOut (\<lambda>L d. tid d = tid t) (snd s)
         \<and> tid t \<notin> definers (snd (rememberLocation t new s))
         \<and> (\<forall>c \<in> set (snd (setMemoryLocation A t new s)). tid t \<in> tid ` set (snd c) \<longrightarrow> c = (new, [t]))
         \<and> (new = EmptyLocation \<or> isGlobalMemory A new \<longrightarrow>
              tid t \<notin> definers (snd (setMemoryLocation A t new s))))
   \<and> ((new = EmptyLocation \<or> isGlobalMemory A new) \<and> isRead (info t) \<and>
       getMemoryLocation (fst s) t \<noteq> EmptyLocation \<longrightarrow>
         getDefinitions (fst (setMemoryLocation A t new s)) t = [])"
proof (intro conjI impI)
  show "getMemoryLocation (fst (setMemoryLocation A t new s)) t = new"
    by (rule setMemoryLocation_location)
next
  assume h: "getMemoryLocation (fst s) t \<noteq> new \<and> isWrite (info t) \<and>
       getMemoryLocation (fst s) t \<noteq> EmptyLocation"
  then show eq: "snd (rememberLocation t new s) = filterOut (\<lambda>L d. tid d = tid t) (snd s)"
    by (simp add: snd_rememberLocation)
  then show no: "tid t \<notin> definers (snd (rememberLocation t new s))"
    by (simp add: definers_filterOut_self)
  show "\<forall>c \<in> set (snd (setMemoryLocation A t new s)). tid t \<in> tid ` set (snd c) \<longrightarrow> c = (new, [t])"
  proof (intro ballI impI)
    fix c
    assume c: "c \<in> set (snd (setMemoryLocation A t new s))" and m: "tid t \<in> tid ` set (snd c)"
    from c set_setMemoryLocation_subset [of A t new s]
    have "c = (new, [t]) \<or> c \<in> set (snd (rememberLocation t new s))" by auto
    moreover have "c \<notin> set (snd (rememberLocation t new s))"
      using no m by (auto simp: definers_def)
    ultimately show "c = (new, [t])" by simp
  qed
  assume "new = EmptyLocation \<or> isGlobalMemory A new"
  then show "tid t \<notin> definers (snd (setMemoryLocation A t new s))"
    using no by (auto simp: snd_setMemoryLocation)
next
  assume "(new = EmptyLocation \<or> isGlobalMemory A new) \<and> isRead (info t) \<and>
       getMemoryLocation (fst s) t \<noteq> EmptyLocation"
  then show "getDefinitions (fst (setMemoryLocation A t new s)) t = []"
    by (auto simp: setMemoryLocation_def Let_def getDefinitions_putDefinitions)
qed

theorem setMemoryLocation_bookkeeping_witness:
  "getMemoryLocation visitedStore readWriteKillAccess = exampleRegister
   \<and> isWrite (info readWriteKillAccess) \<and> isRead (info readWriteKillAccess)
   \<and> getMemoryLocation
       (fst (setMemoryLocation exampleArchitecture readWriteKillAccess EmptyLocation
              (visitedStore, visitedContext))) readWriteKillAccess = EmptyLocation
   \<and> snd (setMemoryLocation exampleArchitecture readWriteKillAccess EmptyLocation
            (visitedStore, visitedContext)) = [(exampleRegister2, [otherWrite])]
   \<and> tid readWriteKillAccess \<notin>
       definers (snd (setMemoryLocation exampleArchitecture readWriteKillAccess EmptyLocation
                       (visitedStore, visitedContext)))
   \<and> getDefinitions
       (fst (setMemoryLocation exampleArchitecture readWriteKillAccess EmptyLocation
              (visitedStore, visitedContext))) readWriteKillAccess = []
   \<and> getMemoryLocation visitedStore movedWrite = exampleRegister
   \<and> getMemoryLocation
       (fst (setMemoryLocation exampleArchitecture movedWrite exampleRegister2
              (visitedStore, visitedContext))) movedWrite = exampleRegister2
   \<and> snd (setMemoryLocation exampleArchitecture movedWrite exampleRegister2
            (visitedStore, visitedContext)) = [(exampleRegister2, [movedWrite])]"
  using setMemoryLocation_bookkeeping
    [of "(visitedStore, visitedContext)" readWriteKillAccess EmptyLocation exampleArchitecture]
    setMemoryLocation_bookkeeping
    [of "(visitedStore, visitedContext)" movedWrite exampleRegister2 exampleArchitecture]
  by (simp add: visitedStore_def visitedContext_def readWriteKillAccess_def otherWrite_def
      movedWrite_def exampleRegister_def exampleRegister2_def exampleArchitecture_def emptyStore_def
      getMemoryLocation_def tid_def snd_setMemoryLocation snd_rememberLocation filterOut_def
      addDefinition_def killDefinitions_def)

text \<open>
  Claim C9. For a location that is neither empty nor global, \<^verbatim>\<open>setMemoryLocation\<close> applies
  the effects of the flags in the order read, write, kill. The context it returns is
  the context left by the first step, to which the definition is added when the term
  is a write, and in which the definitions within the location are then killed when
  the term is a kill. The reaching definitions stored for a read are the projection of
  the context left by the first step, taken before the term's own definition is added:
  a read-and-write term that defines nothing in the incoming context is not among its
  own reaching definitions, although it would be, had the projection been taken after
  the addition. For a write-and-kill term the kill runs after the addition and removes
  the definition just inserted: the returned context has no chunk within the location.
\<close>

theorem setMemoryLocation_effect_order:
  "new \<noteq> EmptyLocation \<and> \<not> isGlobalMemory A new \<longrightarrow>
     snd (setMemoryLocation A t new s) =
       (if isKill (info t) then killDefinitions new else id)
         ((if isWrite (info t) then addDefinition new t else id) (snd (rememberLocation t new s)))
     \<and> (isRead (info t) \<longrightarrow>
          getDefinitions (fst (setMemoryLocation A t new s)) t =
            project new (snd (rememberLocation t new s))
          \<and> (tid t \<notin> definers (snd s) \<longrightarrow>
               tid t \<notin> definers (getDefinitions (fst (setMemoryLocation A t new s)) t)))
     \<and> (isWrite (info t) \<longrightarrow>
          (new, [t]) \<in> set (addDefinition new t (snd (rememberLocation t new s)))
          \<and> (new, [t]) \<in> set (project new (addDefinition new t (snd (rememberLocation t new s)))))
     \<and> (isWrite (info t) \<and> isKill (info t) \<longrightarrow>
          (new, [t]) \<notin> set (snd (setMemoryLocation A t new s))
          \<and> (\<forall>c \<in> set (snd (setMemoryLocation A t new s)). \<not> covers new (fst c)))"
proof (intro impI conjI)
  assume a: "new \<noteq> EmptyLocation \<and> \<not> isGlobalMemory A new"
  then obtain dm ad sz where new: "new = Location dm ad sz"
    by (cases new) auto
  show "snd (setMemoryLocation A t new s) =
       (if isKill (info t) then killDefinitions new else id)
         ((if isWrite (info t) then addDefinition new t else id) (snd (rememberLocation t new s)))"
    using a by (simp add: snd_setMemoryLocation)
  show "(new, [t]) \<in> set (addDefinition new t (snd (rememberLocation t new s)))"
    by (simp add: set_addDefinition)
  show "(new, [t]) \<in> set (project new (addDefinition new t (snd (rememberLocation t new s))))"
    by (simp add: set_project set_addDefinition new)
  {
    assume r: "isRead (info t)"
    show p: "getDefinitions (fst (setMemoryLocation A t new s)) t =
            project new (snd (rememberLocation t new s))"
      using a r by (simp add: getDefinitions_setMemoryLocation_read)
    assume "tid t \<notin> definers (snd s)"
    then show "tid t \<notin> definers (getDefinitions (fst (setMemoryLocation A t new s)) t)"
      using definers_project_subset [of new "snd (rememberLocation t new s)"]
        definers_rememberLocation [of t new s] p
      by auto
  }
  {
    assume wk: "isWrite (info t) \<and> isKill (info t)"
    show "(new, [t]) \<notin> set (snd (setMemoryLocation A t new s))"
      using a wk by (simp add: snd_setMemoryLocation set_killDefinitions new)
    show "\<forall>c \<in> set (snd (setMemoryLocation A t new s)). \<not> covers new (fst c)"
      using a wk by (simp add: snd_setMemoryLocation set_killDefinitions)
  }
qed

theorem setMemoryLocation_effect_order_witness:
  "exampleRegister \<noteq> EmptyLocation \<and> \<not> isGlobalMemory exampleArchitecture exampleRegister
   \<and> isRead (info readWriteKillAccess) \<and> isWrite (info readWriteKillAccess)
   \<and> isKill (info readWriteKillAccess)
   \<and> tid readWriteKillAccess \<notin> definers ([] :: 64 word ReachingDefinitions)
   \<and> snd (setMemoryLocation exampleArchitecture readWriteKillAccess exampleRegister (emptyStore, [])) = []
   \<and> getDefinitions
       (fst (setMemoryLocation exampleArchitecture readWriteKillAccess exampleRegister (emptyStore, [])))
       readWriteKillAccess = []
   \<and> addDefinition exampleRegister readWriteKillAccess [] = [(exampleRegister, [readWriteKillAccess])]"
  using setMemoryLocation_effect_order
    [of exampleRegister exampleArchitecture readWriteKillAccess "(emptyStore, [])"]
  by (simp add: readWriteKillAccess_def exampleRegister_def exampleArchitecture_def emptyStore_def
      getMemoryLocation_def tid_def snd_setMemoryLocation snd_rememberLocation definers_def
      addDefinition_def killDefinitions_def project_def)

subsection \<open>The flags merged from the reaching definitions\<close>

lemma getValue_updateValue: "getValue (updateValue t g st) u = (if tid u = tid t then g (getValue st t) else getValue st u)"
  by (simp add: updateValue_def getValue_def putValue_def)

lemma getValue_cong_term2value:
  "term2value st' (tid u) = term2value st (tid u) \<Longrightarrow> getValue st' u = getValue st u"
  by (simp add: getValue_def)

lemma mergeDefinitionFlags_stackOffsetState:
  "stackOffsetState (getValue (mergeDefinitionFlags t st d) t) =
     copyStackOffsetState (stackOffsetState (getValue st t)) (stackOffsetState (getValue st d))"
  by (simp add: mergeDefinitionFlags_def Let_def getValue_updateValue
      isStackOffset_def isNotStackOffset_def stackOffset_def makeStackOffset_def makeNotStackOffset_def
      isProduct_def isNotProduct_def makeProduct_def makeNotProduct_def
      split: TriState.splits)

lemma mergeDefinitionFlags_other:
  "tid u \<noteq> tid t \<Longrightarrow> getValue (mergeDefinitionFlags t st d) u = getValue st u"
  by (rule getValue_cong_term2value) (simp add: mergeDefinitionFlags_frame)

lemma getValue_same_identity:
  "tid d = tid t \<Longrightarrow> stackOffsetState (getValue st d) = stackOffsetState (getValue st t)"
  by (simp add: getValue_def Value_new_def split: option.splits)

lemma copyStackOffsetState_same: "copyStackOffsetState s s = s"
  by (cases s) auto

lemma foldl_mergeDefinitionFlags_others:
  "stackOffsetState (getValue (foldl (mergeDefinitionFlags t) st ds) t) =
     foldl copyStackOffsetState (stackOffsetState (getValue st t))
       (map (\<lambda>d. stackOffsetState (getValue st d)) (filter (\<lambda>d. tid d \<noteq> tid t) ds))"
proof (induction ds arbitrary: st)
  case Nil
  show ?case by simp
next
  case (Cons d ds)
  let ?st1 = "mergeDefinitionFlags t st d"
  have same: "map (\<lambda>u. stackOffsetState (getValue ?st1 u)) (filter (\<lambda>d. tid d \<noteq> tid t) ds) =
              map (\<lambda>u. stackOffsetState (getValue st u)) (filter (\<lambda>d. tid d \<noteq> tid t) ds)"
    by (intro map_cong refl) (simp add: mergeDefinitionFlags_other)
  have step: "stackOffsetState (getValue (foldl (mergeDefinitionFlags t) st (d # ds)) t) =
     foldl copyStackOffsetState (stackOffsetState (getValue ?st1 t))
       (map (\<lambda>u. stackOffsetState (getValue st u)) (filter (\<lambda>d. tid d \<noteq> tid t) ds))"
    using Cons.IH [of ?st1] by (simp only: same foldl_Cons)
  show ?case
  proof (cases "tid d = tid t")
    case True
    have "stackOffsetState (getValue ?st1 t) = stackOffsetState (getValue st t)"
      using getValue_same_identity [OF True, of st]
      by (simp add: mergeDefinitionFlags_stackOffsetState copyStackOffsetState_same)
    moreover have "filter (\<lambda>d. tid d \<noteq> tid t) (d # ds) = filter (\<lambda>d. tid d \<noteq> tid t) ds"
      using True by simp
    ultimately show ?thesis using step by (simp only:)
  next
    case False
    then have "filter (\<lambda>d. tid d \<noteq> tid t) (d # ds) = d # filter (\<lambda>d. tid d \<noteq> tid t) ds"
      by simp
    then show ?thesis using step by (simp only: mergeDefinitionFlags_stackOffsetState list.map foldl_Cons)
  qed
qed

lemma copyStackOffsetState_No [simp]: "copyStackOffsetState No x = No"
  by (cases x) auto

lemma foldl_copy_No: "foldl copyStackOffsetState No xs = No"
  by (induction xs) (auto split: TriState.splits)

lemma foldl_copy_disclaimed:
  "No \<in> set xs \<Longrightarrow> foldl copyStackOffsetState s xs = No"
proof (induction xs arbitrary: s)
  case Nil
  then show ?case by simp
next
  case (Cons x xs)
  show ?case
  proof (cases "x = No")
    case True
    then show ?thesis by (simp add: foldl_copy_No)
  next
    case False
    with Cons show ?thesis by simp
  qed
qed

lemma foldl_copy_Unknown:
  "\<forall>x \<in> set xs. x = Unknown \<Longrightarrow> foldl copyStackOffsetState s xs = s"
  by (induction xs arbitrary: s) auto

lemma foldl_copy_last:
  "No \<notin> set xs \<Longrightarrow> s \<noteq> No \<Longrightarrow> filter (\<lambda>x. x \<noteq> Unknown) xs \<noteq> [] \<Longrightarrow>
   foldl copyStackOffsetState s xs = last (filter (\<lambda>x. x \<noteq> Unknown) xs)"
proof (induction xs arbitrary: s rule: rev_induct)
  case Nil
  then show ?case by simp
next
  case (snoc x xs)
  show ?case
  proof (cases x)
    case Unknown
    with snoc show ?thesis by simp
  next
    case (Yes k)
    have "foldl copyStackOffsetState s xs \<noteq> No"
    proof (cases "filter (\<lambda>x. x \<noteq> Unknown) xs = []")
      case True
      then have "\<forall>x \<in> set xs. x = Unknown" by (simp add: filter_empty_conv)
      then show ?thesis using snoc.prems(2) by (simp add: foldl_copy_Unknown)
    next
      case False
      then have "foldl copyStackOffsetState s xs = last (filter (\<lambda>x. x \<noteq> Unknown) xs)"
        using snoc by simp
      moreover have "last (filter (\<lambda>x. x \<noteq> Unknown) xs) \<in> set xs"
        using False last_in_set [of "filter (\<lambda>x. x \<noteq> Unknown) xs"] by auto
      ultimately show ?thesis using snoc.prems(1) by auto
    qed
    with Yes show ?thesis by (simp split: TriState.splits)
  next
    case No
    with snoc show ?thesis by simp
  qed
qed

lemma lowerBitsDefinitions_eq:
  "definitions \<noteq> [] \<Longrightarrow>
   lowerBitsDefinitions A L definitions =
     (if byteOrder A = LittleEndian
      then (if loc_addr (fst (hd definitions)) = loc_addr L then Some (snd (hd definitions)) else None)
      else (if loc_endAddr (fst (last definitions)) = loc_endAddr L
            then Some (snd (last definitions)) else None))"
  by (cases definitions) (simp_all add: lowerBitsDefinitions_def)

lemma mergeReachingValues_no_lowerBits:
  "definitions \<noteq> [] \<Longrightarrow> lowerBitsDefinitions A L definitions = None \<Longrightarrow>
   stackOffsetState (getValue (mergeReachingValues A t L definitions st) t) =
     stackOffsetState (getValue st t)"
  by (simp add: mergeReachingValues_def Let_def getValue_updateValue setAbstractValue_def)

lemma mergeReachingValues_lowerBits:
  assumes "definitions \<noteq> []" and lb: "lowerBitsDefinitions A L definitions = Some ds"
  shows "stackOffsetState (getValue (mergeReachingValues A t L definitions st) t) =
             foldl copyStackOffsetState (stackOffsetState (getValue st t))
               (map (\<lambda>d. stackOffsetState (getValue st d)) (filter (\<lambda>d. tid d \<noteq> tid t) ds))"
proof -
  let ?st1 = "updateValue t
                (setAbstractValue (av_resize (tsize t)
                   (foldl (mergeChunkValues A st L) (abstractValue (getValue st t)) definitions))) st"
  have m: "mergeReachingValues A t L definitions st = foldl (mergeDefinitionFlags t) ?st1 ds"
    using assms by (simp add: mergeReachingValues_def Let_def)
  have same: "map (\<lambda>d. stackOffsetState (getValue ?st1 d)) (filter (\<lambda>d. tid d \<noteq> tid t) ds) =
              map (\<lambda>d. stackOffsetState (getValue st d)) (filter (\<lambda>d. tid d \<noteq> tid t) ds)"
    by (intro map_cong refl) (simp add: getValue_updateValue)
  have own: "stackOffsetState (getValue ?st1 t) = stackOffsetState (getValue st t)"
    by (simp add: getValue_updateValue setAbstractValue_def)
  show ?thesis
    using foldl_mergeDefinitionFlags_others [of t ?st1 ds] by (simp only: m same own)
qed


lemma foldl_copy_providers:
  fixes f :: "'b \<Rightarrow> 'a TriState"
  assumes "\<forall>d \<in> set ds. f d \<noteq> No" and "s \<noteq> No" and "filter (\<lambda>d. \<exists>k. f d = Yes k) ds \<noteq> []"
  shows "foldl copyStackOffsetState s (map f ds) = f (last (filter (\<lambda>d. \<exists>k. f d = Yes k) ds))"
proof -
  have feq: "filter (\<lambda>d. f d \<noteq> Unknown) ds = filter (\<lambda>d. \<exists>k. f d = Yes k) ds"
  proof (rule filter_cong [OF refl])
    fix d
    assume "d \<in> set ds"
    then have "f d \<noteq> No" using assms(1) by simp
    then show "(f d \<noteq> Unknown) = (\<exists>k. f d = Yes k)" by (cases "f d") auto
  qed
  have "filter (\<lambda>x. x \<noteq> Unknown) (map f ds) = map f (filter (\<lambda>d. f d \<noteq> Unknown) ds)"
    by (simp add: filter_map comp_def)
  then have fm: "filter (\<lambda>x. x \<noteq> Unknown) (map f ds) = map f (filter (\<lambda>d. \<exists>k. f d = Yes k) ds)"
    using feq by simp
  have "No \<notin> set (map f ds)" using assms(1) by auto
  then have "foldl copyStackOffsetState s (map f ds) = last (filter (\<lambda>x. x \<noteq> Unknown) (map f ds))"
    using assms(2,3) fm by (intro foldl_copy_last) auto
  then show ?thesis using fm assms(3) by (simp add: last_map)
qed

lemma isNotStackOffset_iff: "isNotStackOffset v = (stackOffsetState v = No)"
  by (simp add: isNotStackOffset_def split: TriState.splits)

lemma isStackOffset_iff: "isStackOffset v = (\<exists>k. stackOffsetState v = Yes k)"
  by (simp add: isStackOffset_def split: TriState.splits)

text \<open>
  Claim C5 (as amended). In \<^verbatim>\<open>mergeReachingValues\<close> with a non-empty set of definitions,
  the flags are taken from the lower-bits definitions: on a little-endian architecture
  the definitions of the front chunk when its address is the address of the term's
  location, on a big-endian one the definitions of the back chunk when its end address
  is the end address of the term's location, and none otherwise, in which case the
  stack-offset state of the term is unchanged. Over the lower-bits definitions: if the
  term had already disclaimed or some definition disclaims being a stack offset, the
  term disclaims; otherwise, if some definition other than the term itself provides a
  stack offset, the term gets the offset of the last such definition in iteration
  order; and if no definition disclaims and none but the term itself provides an
  offset, the state is unchanged. A read that is reached by its own definition is
  covered: copying the state of the term onto itself changes nothing.
\<close>

theorem mergeReachingValues_flag_propagation:
  "definitions \<noteq> [] \<longrightarrow>
     lowerBitsDefinitions A L definitions =
       (if byteOrder A = LittleEndian
        then (if loc_addr (fst (hd definitions)) = loc_addr L then Some (snd (hd definitions)) else None)
        else (if loc_endAddr (fst (last definitions)) = loc_endAddr L
              then Some (snd (last definitions)) else None))
     \<and> (lowerBitsDefinitions A L definitions = None \<longrightarrow>
          stackOffsetState (getValue (mergeReachingValues A t L definitions st) t) =
            stackOffsetState (getValue st t))
     \<and> (\<forall>ds. lowerBitsDefinitions A L definitions = Some ds \<longrightarrow>
          (isNotStackOffset (getValue st t) \<or> (\<exists>d \<in> set ds. isNotStackOffset (getValue st d)) \<longrightarrow>
             isNotStackOffset (getValue (mergeReachingValues A t L definitions st) t))
          \<and> (\<not> isNotStackOffset (getValue st t) \<and> (\<forall>d \<in> set ds. \<not> isNotStackOffset (getValue st d)) \<and>
              filter (\<lambda>d. tid d \<noteq> tid t \<and> isStackOffset (getValue st d)) ds \<noteq> [] \<longrightarrow>
                stackOffsetState (getValue (mergeReachingValues A t L definitions st) t) =
                  Yes (stackOffset (getValue st
                         (last (filter (\<lambda>d. tid d \<noteq> tid t \<and> isStackOffset (getValue st d)) ds)))))
          \<and> ((\<forall>d \<in> set ds. \<not> isNotStackOffset (getValue st d)) \<and>
              filter (\<lambda>d. tid d \<noteq> tid t \<and> isStackOffset (getValue st d)) ds = [] \<longrightarrow>
                stackOffsetState (getValue (mergeReachingValues A t L definitions st) t) =
                  stackOffsetState (getValue st t)))"
proof (intro impI conjI allI)
  assume ne: "definitions \<noteq> []"
  show "lowerBitsDefinitions A L definitions =
       (if byteOrder A = LittleEndian
        then (if loc_addr (fst (hd definitions)) = loc_addr L then Some (snd (hd definitions)) else None)
        else (if loc_endAddr (fst (last definitions)) = loc_endAddr L
              then Some (snd (last definitions)) else None))"
    using ne by (rule lowerBitsDefinitions_eq)
  show "lowerBitsDefinitions A L definitions = None \<Longrightarrow>
          stackOffsetState (getValue (mergeReachingValues A t L definitions st) t) =
            stackOffsetState (getValue st t)"
    using ne by (rule mergeReachingValues_no_lowerBits)
  fix ds
  assume lb: "lowerBitsDefinitions A L definitions = Some ds"
  let ?others = "filter (\<lambda>d. tid d \<noteq> tid t) ds"
  let ?f = "\<lambda>d. stackOffsetState (getValue st d)"
  have r: "stackOffsetState (getValue (mergeReachingValues A t L definitions st) t) =
             foldl copyStackOffsetState (stackOffsetState (getValue st t)) (map ?f ?others)"
    using ne lb by (rule mergeReachingValues_lowerBits)
  have ff: "filter (\<lambda>d. \<exists>k. ?f d = Yes k) ?others =
            filter (\<lambda>d. tid d \<noteq> tid t \<and> isStackOffset (getValue st d)) ds"
    by (simp add: isStackOffset_iff)
  {
    assume a: "isNotStackOffset (getValue st t) \<or> (\<exists>d \<in> set ds. isNotStackOffset (getValue st d))"
    have "stackOffsetState (getValue st t) = No \<or> No \<in> set (map ?f ?others)"
    proof (cases "stackOffsetState (getValue st t) = No")
      case True
      then show ?thesis by simp
    next
      case False
      then obtain d where d: "d \<in> set ds" "stackOffsetState (getValue st d) = No"
        using a by (auto simp: isNotStackOffset_iff)
      have "tid d \<noteq> tid t"
      proof
        assume "tid d = tid t"
        then have "stackOffsetState (getValue st d) = stackOffsetState (getValue st t)"
          by (rule getValue_same_identity)
        then show False using d(2) False by simp
      qed
      then have "d \<in> set ?others" using d(1) by simp
      then have "?f d \<in> set (map ?f ?others)" by (rule imageI [of d "set ?others" ?f, simplified set_map [symmetric]])
      then show ?thesis using d(2) by simp
    qed
    then have "foldl copyStackOffsetState (stackOffsetState (getValue st t)) (map ?f ?others) = No"
      using foldl_copy_No foldl_copy_disclaimed by metis
    then show "isNotStackOffset (getValue (mergeReachingValues A t L definitions st) t)"
      using r by (simp add: isNotStackOffset_iff)
  }
  {
    assume h: "\<not> isNotStackOffset (getValue st t) \<and> (\<forall>d \<in> set ds. \<not> isNotStackOffset (getValue st d)) \<and>
              filter (\<lambda>d. tid d \<noteq> tid t \<and> isStackOffset (getValue st d)) ds \<noteq> []"
    let ?l = "last (filter (\<lambda>d. tid d \<noteq> tid t \<and> isStackOffset (getValue st d)) ds)"
    have "?l \<in> set (filter (\<lambda>d. tid d \<noteq> tid t \<and> isStackOffset (getValue st d)) ds)"
      using h by (intro last_in_set) simp
    then have "isStackOffset (getValue st ?l)" by simp
    then have y: "stackOffsetState (getValue st ?l) = Yes (stackOffset (getValue st ?l))"
      by (auto simp: isStackOffset_iff stackOffset_def)
    have n: "\<forall>d \<in> set ?others. ?f d \<noteq> No"
      using h by (simp add: isNotStackOffset_iff)
    have s: "stackOffsetState (getValue st t) \<noteq> No"
      using h by (simp add: isNotStackOffset_iff)
    have p: "filter (\<lambda>d. \<exists>k. ?f d = Yes k) ?others \<noteq> []"
      using h by (simp only: ff) simp
    have "foldl copyStackOffsetState (stackOffsetState (getValue st t)) (map ?f ?others) =
            ?f (last (filter (\<lambda>d. \<exists>k. ?f d = Yes k) ?others))"
      using n s p by (rule foldl_copy_providers)
    then have "foldl copyStackOffsetState (stackOffsetState (getValue st t)) (map ?f ?others) = ?f ?l"
      by (simp only: ff)
    then show "stackOffsetState (getValue (mergeReachingValues A t L definitions st) t) =
                  Yes (stackOffset (getValue st ?l))"
      using r y by simp
  }
  {
    assume a: "(\<forall>d \<in> set ds. \<not> isNotStackOffset (getValue st d)) \<and>
              filter (\<lambda>d. tid d \<noteq> tid t \<and> isStackOffset (getValue st d)) ds = []"
    have "\<forall>x \<in> set (map ?f ?others). x = Unknown"
    proof (intro ballI)
      fix x
      assume "x \<in> set (map ?f ?others)"
      then obtain d where d: "d \<in> set ds" "tid d \<noteq> tid t" and x: "x = stackOffsetState (getValue st d)"
        by auto
      have "\<not> isStackOffset (getValue st d)"
        using a d by (auto simp: filter_empty_conv)
      moreover have "\<not> isNotStackOffset (getValue st d)" using a d by simp
      ultimately have "x \<noteq> No \<and> (\<forall>k. x \<noteq> Yes k)"
        using x by (simp add: isNotStackOffset_iff isStackOffset_iff)
      then show "x = Unknown" by (cases x) auto
    qed
    then show "stackOffsetState (getValue (mergeReachingValues A t L definitions st) t) =
                  stackOffsetState (getValue st t)"
      using r foldl_copy_Unknown by metis
  }
qed

theorem mergeReachingValues_flag_propagation_witness:
  "stackOffsetState (getValue (mergeReachingValues exampleArchitecture wideRead wideRegister
      [(wideRegister, [firstDefinition, secondDefinition])]
      (storeWith (offsetValue 8) (offsetValue 16))) wideRead) = Yes 16
   \<and> stackOffsetState (getValue (mergeReachingValues exampleArchitecture wideRead wideRegister
      [(wideRegister, [firstDefinition, secondDefinition])]
      (storeWith (constantValue 5) (offsetValue 8))) wideRead) = No
   \<and> stackOffsetState (getValue (mergeReachingValues exampleArchitecture wideRead wideRegister
      [(wideRegister, [firstDefinition, secondDefinition])]
      (storeWith unknownValue unknownValue)) wideRead) = Unknown
   \<and> stackOffsetState (getValue (mergeReachingValues exampleArchitecture wideRead wideRegister
      [(upperHalf, [firstDefinition])]
      (storeWith (offsetValue 8) (offsetValue 16))) wideRead) = Unknown
   \<and> stackOffsetState (getValue (mergeReachingValues bigEndianArchitecture wideRead wideRegister
      [(upperHalf, [firstDefinition])]
      (storeWith (offsetValue 8) (offsetValue 16))) wideRead) = Yes 8
   \<and> stackOffsetState (getValue (mergeReachingValues exampleArchitecture wideRead wideRegister
      [(wideRegister, [firstDefinition, wideRead])]
      (storeWithOwn (offsetValue 4) (offsetValue 8) unknownValue)) wideRead) = Yes 8
   \<and> stackOffsetState (getValue (mergeReachingValues exampleArchitecture wideRead wideRegister
      [(wideRegister, [wideRead, secondDefinition])]
      (storeWithOwn (offsetValue 4) (offsetValue 8) unknownValue)) wideRead) = Yes 4
   \<and> stackOffsetState (getValue (mergeReachingValues exampleArchitecture wideRead wideRegister
      [(wideRegister, [wideRead, firstDefinition])]
      (storeWithOwn (constantValue 5) (offsetValue 8) unknownValue)) wideRead) = No"
  using
    mergeReachingValues_flag_propagation
      [where definitions = "[(wideRegister, [firstDefinition, secondDefinition])]"
         and A = exampleArchitecture and L = wideRegister
         and t = wideRead and st = "storeWith (offsetValue 8) (offsetValue 16)"]
    mergeReachingValues_flag_propagation
      [where definitions = "[(wideRegister, [firstDefinition, secondDefinition])]"
         and A = exampleArchitecture and L = wideRegister
         and t = wideRead and st = "storeWith (constantValue 5) (offsetValue 8)"]
    mergeReachingValues_flag_propagation
      [where definitions = "[(wideRegister, [firstDefinition, secondDefinition])]"
         and A = exampleArchitecture and L = wideRegister
         and t = wideRead and st = "storeWith unknownValue unknownValue"]
    mergeReachingValues_flag_propagation
      [where definitions = "[(upperHalf, [firstDefinition])]"
         and A = exampleArchitecture and L = wideRegister
         and t = wideRead and st = "storeWith (offsetValue 8) (offsetValue 16)"]
    mergeReachingValues_flag_propagation
      [where definitions = "[(upperHalf, [firstDefinition])]"
         and A = bigEndianArchitecture and L = wideRegister
         and t = wideRead and st = "storeWith (offsetValue 8) (offsetValue 16)"]
    mergeReachingValues_flag_propagation
      [where definitions = "[(wideRegister, [firstDefinition, wideRead])]"
         and A = exampleArchitecture and L = wideRegister
         and t = wideRead and st = "storeWithOwn (offsetValue 4) (offsetValue 8) unknownValue"]
    mergeReachingValues_flag_propagation
      [where definitions = "[(wideRegister, [wideRead, secondDefinition])]"
         and A = exampleArchitecture and L = wideRegister
         and t = wideRead and st = "storeWithOwn (offsetValue 4) (offsetValue 8) unknownValue"]
    mergeReachingValues_flag_propagation
      [where definitions = "[(wideRegister, [wideRead, firstDefinition])]"
         and A = exampleArchitecture and L = wideRegister
         and t = wideRead and st = "storeWithOwn (constantValue 5) (offsetValue 8) unknownValue"]
  by (simp add: mergeReachingValues_def lowerBitsDefinitions_def mergeDefinitionFlags_def Let_def
      storeWith_def storeWithOwn_def emptyStore_def wideRegister_def upperHalf_def
      firstDefinition_def secondDefinition_def wideRead_def exampleArchitecture_def
      bigEndianArchitecture_def getValue_def tid_def tsize_def
      offsetValue_def constantValue_def unknownValue_def Value_new_def
      isStackOffset_def isNotStackOffset_def stackOffset_def makeStackOffset_def makeNotStackOffset_def
      isProduct_def isNotProduct_def makeProduct_def makeNotProduct_def setAbstractValue_def
      updateValue_def putValue_def)

text \<open>The claim as first stated fails: here the first of the two lower-bits definitions
  provides the stack offset 8 and the second disclaims, and the term ends up
  disclaiming instead of getting the offset.\<close>

theorem mergeReachingValues_any_offset_counterexample:
  "lowerBitsDefinitions exampleArchitecture wideRegister [(wideRegister, [firstDefinition, secondDefinition])]
     = Some [firstDefinition, secondDefinition]
   \<and> isStackOffset (getValue (storeWith (offsetValue 8) (constantValue 5)) firstDefinition)
   \<and> stackOffset (getValue (storeWith (offsetValue 8) (constantValue 5)) firstDefinition) = 8
   \<and> stackOffsetState (getValue (mergeReachingValues exampleArchitecture wideRead wideRegister
         [(wideRegister, [firstDefinition, secondDefinition])]
         (storeWith (offsetValue 8) (constantValue 5))) wideRead) = No"
  by (simp add: mergeReachingValues_def lowerBitsDefinitions_def mergeDefinitionFlags_def Let_def
      getValue_updateValue storeWith_def emptyStore_def wideRegister_def firstDefinition_def
      secondDefinition_def wideRead_def exampleArchitecture_def getValue_def tid_def tsize_def
      offsetValue_def constantValue_def Value_new_def
      isStackOffset_def isNotStackOffset_def stackOffset_def makeStackOffset_def makeNotStackOffset_def
      isProduct_def isNotProduct_def makeProduct_def makeNotProduct_def setAbstractValue_def
      updateValue_def putValue_def)

subsection \<open>The stack offset of a binary operator\<close>

lemma binaryStackOffset_ADD:
  "(stackOffsetState lv = Yes k \<and> isConcrete (abstractValue rv) \<and> \<not> isStackOffset rv \<and>
      stackOffsetState v \<noteq> No \<longrightarrow>
      stackOffsetState (binaryStackOffset ADD lv rv v) =
        Yes (k + signedValue (asConcrete (abstractValue rv))))
   \<and> (stackOffsetState rv = Yes k \<and> isConcrete (abstractValue lv) \<and>
      \<not> (isStackOffset lv \<and> \<not> isConcrete (abstractValue rv) \<and> isNondeterministic (abstractValue rv)) \<and>
      stackOffsetState v \<noteq> No \<longrightarrow>
      stackOffsetState (binaryStackOffset ADD lv rv v) =
        Yes (k + signedValue (asConcrete (abstractValue lv))))
   \<and> (isStackOffset lv \<and> \<not> isConcrete (abstractValue rv) \<and> isNondeterministic (abstractValue rv) \<longrightarrow>
      stackOffsetState (binaryStackOffset ADD lv rv v) = No)
   \<and> (isStackOffset rv \<and> \<not> isConcrete (abstractValue lv) \<and> isNondeterministic (abstractValue lv) \<longrightarrow>
      stackOffsetState (binaryStackOffset ADD lv rv v) = No)
   \<and> (isNotStackOffset lv \<and> isNotStackOffset rv \<longrightarrow>
      stackOffsetState (binaryStackOffset ADD lv rv v) = No)"
  by (auto simp: binaryStackOffset_def Let_def isStackOffset_def isNotStackOffset_def stackOffset_def
      makeStackOffset_def makeNotStackOffset_def split: TriState.splits)

lemma binaryStackOffset_SUB:
  "(stackOffsetState lv = Yes k \<and> isConcrete (abstractValue rv) \<and> stackOffsetState v \<noteq> No \<longrightarrow>
      stackOffsetState (binaryStackOffset SUB lv rv v) =
        Yes (k - signedValue (asConcrete (abstractValue rv))))
   \<and> (\<not> (isStackOffset lv \<and> isConcrete (abstractValue rv)) \<and>
       (isNotStackOffset lv \<or> isNondeterministic (abstractValue rv)) \<longrightarrow>
      stackOffsetState (binaryStackOffset SUB lv rv v) = No)"
  by (auto simp: binaryStackOffset_def Let_def isStackOffset_def isNotStackOffset_def stackOffset_def
      makeStackOffset_def makeNotStackOffset_def split: TriState.splits)

lemma binaryStackOffset_AND:
  "(stackOffsetState lv = Yes k \<and> isConcrete (abstractValue rv) \<and> stackOffsetState v \<noteq> No \<longrightarrow>
      stackOffsetState (binaryStackOffset AND_OP lv rv v) =
        Yes (k AND sv_value (asConcrete (abstractValue rv))))
   \<and> (stackOffsetState rv = Yes k \<and> isConcrete (abstractValue lv) \<and>
       \<not> (isStackOffset lv \<and> isConcrete (abstractValue rv)) \<and> stackOffsetState v \<noteq> No \<longrightarrow>
      stackOffsetState (binaryStackOffset AND_OP lv rv v) =
        Yes (k AND sv_value (asConcrete (abstractValue lv))))
   \<and> (\<not> (isStackOffset lv \<and> isConcrete (abstractValue rv)) \<and>
       \<not> (isStackOffset rv \<and> isConcrete (abstractValue lv)) \<and>
       ((isNondeterministic (abstractValue lv) \<and> isNotStackOffset lv) \<or>
        (isNondeterministic (abstractValue rv) \<and> isNotStackOffset rv)) \<longrightarrow>
      stackOffsetState (binaryStackOffset AND_OP lv rv v) = No)"
  by (auto simp: binaryStackOffset_def Let_def isStackOffset_def isNotStackOffset_def stackOffset_def
      makeStackOffset_def makeNotStackOffset_def split: TriState.splits)

text \<open>
  Claim C6 (as amended). The stack offset of a binary operator, as a function of the
  Values of its operands and of the state its own Value had, is as follows. Where the
  result is a stack offset, the Value of the operator must not already have disclaimed
  being one, since a disclaimer is final. ADD: a left operand that is StackOffset(k)
  with a concrete right operand c that is not itself a stack offset gives
  StackOffset(k + signed(c)); a right operand that is StackOffset(k) with a concrete
  left operand c gives StackOffset(k + signed(c)), the rule for the right operand being
  applied last; a stack offset on one side with a nondeterministic, not concrete value
  on the other side gives NotStackOffset; two operands that are NotStackOffset give
  NotStackOffset. SUB: a left StackOffset(k) with a concrete right c gives
  StackOffset(k - signed(c)); else a left NotStackOffset or a nondeterministic right
  gives NotStackOffset. AND: a left StackOffset(k) with a concrete right c gives
  StackOffset(k AND c); else a right StackOffset(k) with a concrete left c gives
  StackOffset(k AND c); else an operand that is both nondeterministic and
  NotStackOffset gives NotStackOffset.
\<close>

theorem binaryStackOffset_transfer:
  "(stackOffsetState lv = Yes k \<and> isConcrete (abstractValue rv) \<and> \<not> isStackOffset rv \<and>
      stackOffsetState v \<noteq> No \<longrightarrow>
      stackOffsetState (binaryStackOffset ADD lv rv v) =
        Yes (k + signedValue (asConcrete (abstractValue rv))))
   \<and> (stackOffsetState rv = Yes k \<and> isConcrete (abstractValue lv) \<and>
      \<not> (isStackOffset lv \<and> \<not> isConcrete (abstractValue rv) \<and> isNondeterministic (abstractValue rv)) \<and>
      stackOffsetState v \<noteq> No \<longrightarrow>
      stackOffsetState (binaryStackOffset ADD lv rv v) =
        Yes (k + signedValue (asConcrete (abstractValue lv))))
   \<and> (isStackOffset lv \<and> \<not> isConcrete (abstractValue rv) \<and> isNondeterministic (abstractValue rv) \<longrightarrow>
      stackOffsetState (binaryStackOffset ADD lv rv v) = No)
   \<and> (isStackOffset rv \<and> \<not> isConcrete (abstractValue lv) \<and> isNondeterministic (abstractValue lv) \<longrightarrow>
      stackOffsetState (binaryStackOffset ADD lv rv v) = No)
   \<and> (isNotStackOffset lv \<and> isNotStackOffset rv \<longrightarrow>
      stackOffsetState (binaryStackOffset ADD lv rv v) = No)
   \<and> (stackOffsetState lv = Yes k \<and> isConcrete (abstractValue rv) \<and> stackOffsetState v \<noteq> No \<longrightarrow>
      stackOffsetState (binaryStackOffset SUB lv rv v) =
        Yes (k - signedValue (asConcrete (abstractValue rv))))
   \<and> (\<not> (isStackOffset lv \<and> isConcrete (abstractValue rv)) \<and>
       (isNotStackOffset lv \<or> isNondeterministic (abstractValue rv)) \<longrightarrow>
      stackOffsetState (binaryStackOffset SUB lv rv v) = No)
   \<and> (stackOffsetState lv = Yes k \<and> isConcrete (abstractValue rv) \<and> stackOffsetState v \<noteq> No \<longrightarrow>
      stackOffsetState (binaryStackOffset AND_OP lv rv v) =
        Yes (k AND sv_value (asConcrete (abstractValue rv))))
   \<and> (stackOffsetState rv = Yes k \<and> isConcrete (abstractValue lv) \<and>
       \<not> (isStackOffset lv \<and> isConcrete (abstractValue rv)) \<and> stackOffsetState v \<noteq> No \<longrightarrow>
      stackOffsetState (binaryStackOffset AND_OP lv rv v) =
        Yes (k AND sv_value (asConcrete (abstractValue lv))))
   \<and> (\<not> (isStackOffset lv \<and> isConcrete (abstractValue rv)) \<and>
       \<not> (isStackOffset rv \<and> isConcrete (abstractValue lv)) \<and>
       ((isNondeterministic (abstractValue lv) \<and> isNotStackOffset lv) \<or>
        (isNondeterministic (abstractValue rv) \<and> isNotStackOffset rv)) \<longrightarrow>
      stackOffsetState (binaryStackOffset AND_OP lv rv v) = No)"
  using binaryStackOffset_ADD [of lv k rv v] binaryStackOffset_SUB [of lv k rv v]
    binaryStackOffset_AND [of lv k rv v]
  by blast

theorem binaryStackOffset_transfer_witness:
  "stackOffsetState (binaryStackOffset ADD stackPointerValue (constantValue 4) (Value_new 64)) = Yes 4
   \<and> stackOffsetState (binaryStackOffset ADD (constantValue 4) stackPointerValue (Value_new 64)) = Yes 4
   \<and> stackOffsetState (binaryStackOffset ADD (offsetValue (- 4)) unknownValue (Value_new 64)) = No
   \<and> stackOffsetState (binaryStackOffset ADD unknownValue (offsetValue (- 4)) (Value_new 64)) = No
   \<and> stackOffsetState (binaryStackOffset ADD (constantValue 4) (constantValue 4) (Value_new 64)) = No
   \<and> stackOffsetState (binaryStackOffset SUB stackPointerValue (constantValue 4) (Value_new 64)) = Yes (- 4)
   \<and> stackOffsetState (binaryStackOffset SUB (constantValue 4) (constantValue 4) (Value_new 64)) = No
   \<and> stackOffsetState (binaryStackOffset AND_OP (offsetValue (- 4)) (constantValue (NOT 15)) (Value_new 64))
       = Yes (- 16)
   \<and> stackOffsetState (binaryStackOffset AND_OP (constantValue (NOT 15)) (offsetValue (- 4)) (Value_new 64))
       = Yes (- 16)
   \<and> stackOffsetState (binaryStackOffset AND_OP nondeterministicValue (constantValue 4) (Value_new 64)) = No"
  using binaryStackOffset_transfer [of stackPointerValue 0 "constantValue 4" "Value_new 64"]
    binaryStackOffset_transfer [of "constantValue 4" 0 stackPointerValue "Value_new 64"]
    binaryStackOffset_transfer [of "offsetValue (- 4)" "- 4" unknownValue "Value_new 64"]
    binaryStackOffset_transfer [of unknownValue "- 4" "offsetValue (- 4)" "Value_new 64"]
    binaryStackOffset_transfer [of "constantValue 4" 0 "constantValue 4" "Value_new 64"]
    binaryStackOffset_transfer [of "offsetValue (- 4)" "- 4" "constantValue (NOT 15)" "Value_new 64"]
    binaryStackOffset_transfer [of "constantValue (NOT 15)" "- 4" "offsetValue (- 4)" "Value_new 64"]
    binaryStackOffset_transfer [of nondeterministicValue 0 "constantValue 4" "Value_new 64"]
  by (simp add: binaryStackOffset_def stackPointerValue_def constantValue_def Value_new_def
     offsetValue_def nondeterministicValue_def unknownValue_def
     isStackOffset_def isNotStackOffset_def stackOffset_def makeStackOffset_def makeNotStackOffset_def
     isConcrete_def isNondeterministic_def asConcrete_def signedValue_def
     AbstractValue_of_def AbstractValue_new_def SizedValue_new_def mask_64)

text \<open>The claim as first stated fails: for AND it promises StackOffset(k AND c) for a
  stack offset k on either side with a concrete value c on the other. Here the right
  operand is the stack offset 6 and the left operand has the concrete value 10, but the
  left operand is a stack offset too (12) and the right one concrete (3): the rule for
  the left operand is taken, and the result is 12 AND 3 = 0, not 6 AND 10 = 2.\<close>

theorem binaryStackOffset_AND_counterexample:
  "isStackOffset (offsetConstantValue 6 3) \<and> stackOffset (offsetConstantValue 6 3) = 6
   \<and> isConcrete (abstractValue (offsetConstantValue 12 10))
   \<and> sv_value (asConcrete (abstractValue (offsetConstantValue 12 10))) = 10
   \<and> stackOffsetState
        (binaryStackOffset AND_OP (offsetConstantValue 12 10) (offsetConstantValue 6 3) (Value_new 64))
       = Yes 0
   \<and> Yes 0 \<noteq> Yes (6 AND (10 :: 64 word))"
  by (simp add: binaryStackOffset_def offsetConstantValue_def Value_new_def
     isStackOffset_def isNotStackOffset_def stackOffset_def makeStackOffset_def makeNotStackOffset_def
     isConcrete_def isNondeterministic_def asConcrete_def signedValue_def
     AbstractValue_of_def AbstractValue_new_def SizedValue_new_def mask_64)

subsection \<open>Abstract values across evaluations\<close>
















lemma term2value_ncWarning [simp]: "term2value (ncWarning w st) = term2value st"
  by (simp add: ncWarning_def)

lemma term2value_foldl_ncWarning [simp]: "term2value (foldl (\<lambda>s w. ncWarning w s) st ws) = term2value st"
  by (induction ws arbitrary: st) simp_all

lemma getValue_foldl_ncWarning [simp]: "getValue (foldl (\<lambda>s w. ncWarning w s) st ws) u = getValue st u"
  by (simp add: getValue_def)





lemma unaryFlags_abstractValue [simp]: "abstractValue (unaryFlags k ov v) = abstractValue v"
  by (simp add: unaryFlags_def Let_def makeStackOffset_def makeNotStackOffset_def makeProduct_def
      makeNotProduct_def split: TriState.splits)

lemma binaryStackOffset_abstractValue [simp]: "abstractValue (binaryStackOffset k lv rv v) = abstractValue v"
  by (simp add: binaryStackOffset_def Let_def makeStackOffset_def makeNotStackOffset_def
      split: TriState.splits BinaryKind.splits)

lemma binaryProduct_abstractValue [simp]: "abstractValue (binaryProduct k v) = abstractValue v"
  by (simp add: binaryProduct_def makeProduct_def makeNotProduct_def split: TriState.splits)






subsection \<open>The passes and the loop of the driver\<close>

declare analyzeLoop.simps [simp del]

lemma analyzeBlock_cases:
  "(fst (snd (analyzeBlock A ops f (st, out, nf) bb)) = out \<and> snd (snd (analyzeBlock A ops f (st, out, nf) bb)) = nf)
   \<or> snd (snd (analyzeBlock A ops f (st, out, nf) bb)) = 0"
  by (simp add: analyzeBlock_def Let_def)

lemma foldl_analyzeBlock_zero:
  "snd (snd s) = 0 \<Longrightarrow> snd (snd (foldl (analyzeBlock A ops f) s bs)) = 0"
proof (induction bs arbitrary: s)
  case Nil
  then show ?case by simp
next
  case (Cons b bs)
  have "snd (snd (analyzeBlock A ops f s b)) = 0"
    using Cons.prems by (simp add: analyzeBlock_def Let_def)
  then show ?case using Cons.IH by simp
qed

lemma foldl_analyzeBlock_cases:
  "(fst (snd (foldl (analyzeBlock A ops f) (st, out, nf) bs)) = out \<and>
    snd (snd (foldl (analyzeBlock A ops f) (st, out, nf) bs)) = nf)
   \<or> snd (snd (foldl (analyzeBlock A ops f) (st, out, nf) bs)) = 0"
proof (induction bs arbitrary: st)
  case Nil
  show ?case by simp
next
  case (Cons b bs)
  let ?s1 = "analyzeBlock A ops f (st, out, nf) b"
  from analyzeBlock_cases [of A ops f st out nf b]
  show ?case
  proof
    assume same: "fst (snd ?s1) = out \<and> snd (snd ?s1) = nf"
    then have "?s1 = (fst ?s1, out, nf)" by (metis prod.collapse)
    then show ?thesis using Cons.IH [of "fst ?s1"] by simp
  next
    assume "snd (snd ?s1) = 0"
    then show ?thesis using foldl_analyzeBlock_zero [of ?s1 A ops f bs] by simp
  qed
qed

lemma runPass_cases:
  "(fst (snd (runPass A ops f (st, out, nf))) = out \<and> snd (snd (runPass A ops f (st, out, nf))) = nf)
   \<or> snd (snd (runPass A ops f (st, out, nf))) = 0"
  using foldl_analyzeBlock_cases [of A ops f st out nf "basicBlocks f"]
  by (simp add: runPass_def Let_def)

text \<open>
  Claim C2 (as amended). In the loop over the blocks, when the context computed for a
  block differs from its stored out-definitions, the stability counter is reset to zero
  and the out-definitions of the block are replaced by that context; otherwise the
  block leaves the counter and all out-definitions as they are. Hence a pass either
  resets the counter or leaves the out-definitions of every block unchanged. Nothing is
  said about a pass made after three stable ones, nor about the Values of the terms:
  the test for stability looks at the out-definitions only.
\<close>

theorem analyzeBlock_stability_counter:
  "(let ctx = snd (foldl (\<lambda>s' statement. executeStatement A ops statement s')
                    (st, filterOut (notCovered st)
                           (foldl (\<lambda>c predecessor. merge_rd c (out predecessor)) []
                              (getPredecessors f (block_id bb))))
                    (statements bb));
        r = analyzeBlock A ops f (st, out, nf) bb
    in (if out (block_id bb) \<noteq> ctx
        then snd (snd r) = 0 \<and> fst (snd r) = out(block_id bb := ctx)
        else snd (snd r) = nf \<and> fst (snd r) = out))
   \<and> (snd (snd (runPass A ops f (st, out, Suc n))) = 0 \<or>
       (snd (snd (runPass A ops f (st, out, Suc n))) = Suc n \<and>
        fst (snd (runPass A ops f (st, out, Suc n))) = out))"
  using runPass_cases [of A ops f st out "Suc n"]
  by (auto simp: analyzeBlock_def Let_def)

theorem analyzeBlock_stability_counter_witness:
  "snd (snd (analyzeBlock exampleArchitecture exampleOps loopFunction (emptyStore, (\<lambda>b. []), 1) loopBlock)) = 0
   \<and> fst (snd (analyzeBlock exampleArchitecture exampleOps loopFunction (emptyStore, (\<lambda>b. []), 1) loopBlock)) 0
       = [(exampleRegister, [registerWrite])]
   \<and> snd (snd (analyzeBlock exampleArchitecture exampleOps countingFunction
                 (emptyStore, (\<lambda>b. []), 1) countingBlock)) = 1
   \<and> fst (snd (analyzeBlock exampleArchitecture exampleOps countingFunction
                 (emptyStore, (\<lambda>b. []), 1) countingBlock)) 0 = []"
proof -
  have k1: "snd (foldl (\<lambda>s' statement. executeStatement exampleArchitecture exampleOps statement s')
                    (emptyStore, filterOut (notCovered emptyStore)
                           (foldl (\<lambda>c predecessor. merge_rd c ((\<lambda>b. []) predecessor)) []
                              (getPredecessors loopFunction (block_id loopBlock))))
                    (statements loopBlock)) = [(exampleRegister, [registerWrite])]"
    by code_simp
  have k2: "snd (foldl (\<lambda>s' statement. executeStatement exampleArchitecture exampleOps statement s')
                    (emptyStore, filterOut (notCovered emptyStore)
                           (foldl (\<lambda>c predecessor. merge_rd c ((\<lambda>b. []) predecessor)) []
                              (getPredecessors countingFunction (block_id countingBlock))))
                    (statements countingBlock)) = []"
    by code_simp
  have b: "block_id loopBlock = 0" "block_id countingBlock = 0"
    by (simp_all add: loopBlock_def countingBlock_def)
  show ?thesis
    using
      analyzeBlock_stability_counter
        [where A = exampleArchitecture and ops = exampleOps and f = loopFunction and st = emptyStore
           and out = "\<lambda>b. []" and nf = 1 and bb = loopBlock]
      analyzeBlock_stability_counter
        [where A = exampleArchitecture and ops = exampleOps and f = countingFunction and st = emptyStore
           and out = "\<lambda>b. []" and nf = 1 and bb = countingBlock]
      k1 k2
    by (simp add: Let_def b)
qed

text \<open>The claim as first stated fails: it promises that after three stable passes a
  fourth pass changes no out-definitions and no Value. The block of \<open>countingFunction\<close>
  touches a read of a register and then calls a hook that adds one to the value stored
  for that read. No out-definitions ever change, so the loop is left after three
  passes, with the value 3; a fourth pass makes it 4.\<close>

theorem fourth_pass_counterexample:
  "(case analyzeLoop exampleArchitecture exampleOps countingFunction (\<lambda>n. False)
           (0, 0, emptyStore, (\<lambda>b. []), []) of
      (exit, niterations, nfixpoints, st, outDefinitions, history) \<Rightarrow>
        exit = ConditionFailed \<and> history = [False, False, False]
        \<and> abstractValue (getValue st counterRead) = AbstractValue_of (SizedValue_new 32 3)
        \<and> abstractValue
             (getValue (fst (runPass exampleArchitecture exampleOps countingFunction
                               (st, outDefinitions, 1))) counterRead)
           = AbstractValue_of (SizedValue_new 32 4)
        \<and> abstractValue
             (getValue (fst (runPass exampleArchitecture exampleOps countingFunction
                               (st, outDefinitions, 1))) counterRead)
           \<noteq> abstractValue (getValue st counterRead))"
  by code_simp

lemma analyzeBlock_blockResult:
  "analyzeBlock A ops f (st, out, nf) bb =
     (if out (block_id bb) \<noteq> snd (blockResult A ops f st out bb)
      then (fst (blockResult A ops f st out bb), out(block_id bb := snd (blockResult A ops f st out bb)), 0)
      else (fst (blockResult A ops f st out bb), out, nf))"
  by (simp add: analyzeBlock_def blockResult_def Let_def)

lemma foldl_analyzeBlock_counter:
  "snd (snd (foldl (analyzeBlock A ops f) (st, out, Suc m) bs)) =
     (if passUnchanged A ops f st out bs then Suc m else 0)"
proof (induction bs arbitrary: st)
  case Nil
  show ?case by simp
next
  case (Cons b bs)
  show ?case
  proof (cases "out (block_id b) = snd (blockResult A ops f st out b)")
    case True
    then show ?thesis
      using Cons.IH [of "fst (blockResult A ops f st out b)"]
      by (simp add: analyzeBlock_blockResult)
  next
    case False
    then have "snd (snd (analyzeBlock A ops f (st, out, Suc m) b)) = 0"
      by (simp add: analyzeBlock_blockResult)
    then have "snd (snd (foldl (analyzeBlock A ops f) (analyzeBlock A ops f (st, out, Suc m) b) bs)) = 0"
      by (rule foldl_analyzeBlock_zero)
    then show ?thesis using False by auto
  qed
qed

lemma foldl_analyzeBlock_counter_free:
  "fst (foldl (analyzeBlock A ops f) (st, out, nf) bs) = fst (foldl (analyzeBlock A ops f) (st, out, nf') bs)
   \<and> fst (snd (foldl (analyzeBlock A ops f) (st, out, nf) bs)) =
       fst (snd (foldl (analyzeBlock A ops f) (st, out, nf') bs))"
proof (induction bs arbitrary: st out nf nf')
  case Nil
  show ?case by simp
next
  case (Cons b bs)
  show ?case
  proof (cases "out (block_id b) = snd (blockResult A ops f st out b)")
    case True
    then show ?thesis
      using Cons.IH [of "fst (blockResult A ops f st out b)" out nf nf']
      by (simp add: analyzeBlock_blockResult)
  next
    case False
    then show ?thesis
      using Cons.IH [of "fst (blockResult A ops f st out b)"
                        "out(block_id b := snd (blockResult A ops f st out b))" 0 0]
      by (simp add: analyzeBlock_blockResult)
  qed
qed

lemma runPass_counter:
  "snd (snd (runPass A ops f (st, out, Suc m))) =
     (if passUnchanged A ops f st out (basicBlocks f) then Suc m else 0)"
  by (simp add: runPass_def Let_def foldl_analyzeBlock_counter)

lemma runPass_counter_free:
  "fst (runPass A ops f (st, out, nf)) = fst (runPass A ops f (st, out, 1))"
  "fst (snd (runPass A ops f (st, out, nf))) = fst (snd (runPass A ops f (st, out, 1)))"
  using foldl_analyzeBlock_counter_free [of A ops f st out nf "basicBlocks f" 1]
  by (simp_all add: runPass_def Let_def)

lemma stablePass_0 [simp]: "\<not> stablePass A ops f st 0"
  by (simp add: stablePass_def)

lemma stablePass_Suc:
  "stablePass A ops f st (Suc k) =
     passUnchanged A ops f (fst (afterPasses A ops f st k)) (snd (afterPasses A ops f st k)) (basicBlocks f)"
  by (simp add: stablePass_def Let_def)

lemma stableStreak_three:
  "(3 \<le> stableStreak A ops f st n) =
     (stablePass A ops f st n \<and> stablePass A ops f st (n - 1) \<and> stablePass A ops f st (n - 2))"
proof (cases n)
  case 0
  then show ?thesis by simp
next
  case (Suc a)
  note n = Suc
  show ?thesis
  proof (cases a)
    case 0
    then show ?thesis using n by simp
  next
    case (Suc b)
    note a = Suc
    show ?thesis
    proof (cases b)
      case 0
      then show ?thesis using n a by simp
    next
      case (Suc c)
      then show ?thesis using n a by simp
    qed
  qed
qed

lemma afterPasses_Suc:
  "fst (afterPasses A ops f st (Suc k)) =
     fst (runPass A ops f (fst (afterPasses A ops f st k), snd (afterPasses A ops f st k), nf))"
  "snd (afterPasses A ops f st (Suc k)) =
     fst (snd (runPass A ops f (fst (afterPasses A ops f st k), snd (afterPasses A ops f st k), nf)))"
  using runPass_counter_free [of A ops f "fst (afterPasses A ops f st k)" "snd (afterPasses A ops f st k)" nf]
  by (simp_all add: Let_def)

lemma stableStreak_Suc:
  "snd (snd (runPass A ops f (fst (afterPasses A ops f st k), snd (afterPasses A ops f st k),
                              Suc (stableStreak A ops f st k)))) =
     stableStreak A ops f st (Suc k)"
  by (simp add: runPass_counter stablePass_Suc)


lemma analyzeLoop_run:
  assumes "j < 30"
    and "stj = fst (afterPasses A ops f st j)"
    and "outj = snd (afterPasses A ops f st j)"
    and "nf = stableStreak A ops f st j"
    and "h = map (\<lambda>k. \<not> stablePass A ops f st k) [1..<Suc j]"
    and "\<forall>m. 1 \<le> m \<and> m \<le> j \<longrightarrow> \<not> poll m"
    and "\<forall>m. m < j \<longrightarrow> stableStreak A ops f st m < 3"
    and "r = analyzeLoop A ops f poll (j, nf, stj, outj, h)"
  shows "1 \<le> fst (snd r) \<and> fst (snd r) \<le> 30
     \<and> (fst (snd r) = 30 \<or> poll (fst (snd r)) \<or> 3 \<le> stableStreak A ops f st (fst (snd r)))
     \<and> (\<forall>m. 1 \<le> m \<and> m < fst (snd r) \<longrightarrow> \<not> poll m \<and> stableStreak A ops f st m < 3)
     \<and> fst r = (if fst (snd r) = 30 then IterationLimit
                else if poll (fst (snd r)) then CancellationRaised else ConditionFailed)
     \<and> fst (snd (snd (snd r))) =
         (if fst (snd r) = 30
          then ncWarning (FixpointNotReached 30) (fst (afterPasses A ops f st 30))
          else fst (afterPasses A ops f st (fst (snd r))))
     \<and> fst (snd (snd (snd (snd r)))) = snd (afterPasses A ops f st (fst (snd r)))
     \<and> snd (snd (snd (snd (snd r)))) = map (\<lambda>k. \<not> stablePass A ops f st k) [1..<Suc (fst (snd r))]"
  using assms
proof (induction A ops f poll "(j, nf, stj, outj, h)"
    arbitrary: j nf stj outj h r rule: analyzeLoop.induct)
  case (1 A ops f poll j nf stj outj h)
  let ?p = "runPass A ops f (stj, outj, Suc nf)"
  let ?h = "h @ [snd (snd ?p) = 0]"
  have p1: "fst ?p = fst (afterPasses A ops f st (Suc j))"
    using afterPasses_Suc(1) [of A ops f st j "Suc nf"] "1.prems"(2,3) by simp
  have p2: "fst (snd ?p) = snd (afterPasses A ops f st (Suc j))"
    using afterPasses_Suc(2) [of A ops f st j "Suc nf"] "1.prems"(2,3) by simp
  have p3: "snd (snd ?p) = stableStreak A ops f st (Suc j)"
    using stableStreak_Suc [of A ops f st j] "1.prems"(2,3,4) by simp
  have p4: "(snd (snd ?p) = 0) = (\<not> stablePass A ops f st (Suc j))"
    using p3 by simp
  have h': "?h = map (\<lambda>k. \<not> stablePass A ops f st k) [1..<Suc (Suc j)]"
    using "1.prems"(5) p4 by simp
  have polls: "\<forall>m. 1 \<le> m \<and> m < Suc j \<longrightarrow> \<not> poll m \<and> stableStreak A ops f st m < 3" if "nf < 3"
  proof (intro allI impI)
    fix m
    assume m: "1 \<le> m \<and> m < Suc j"
    then have "\<not> poll m" using "1.prems"(6) by simp
    moreover have "stableStreak A ops f st m < 3"
    proof (cases "m = j")
      case True
      then show ?thesis using that "1.prems"(4) by simp
    next
      case False
      then show ?thesis using m "1.prems"(7) by simp
    qed
    ultimately show "\<not> poll m \<and> stableStreak A ops f st m < 3" by simp
  qed
  show ?case
  proof (cases "nf < 3")
    case False
    then have r: "r = (ConditionFailed, j, Suc nf, stj, outj, h)"
      using "1.prems"(8) by (simp add: analyzeLoop.simps)
    have j1: "1 \<le> j"
    proof (cases j)
      case 0
      then show ?thesis using False "1.prems"(4) by simp
    next
      case (Suc a)
      then show ?thesis by simp
    qed
    have np: "\<not> poll j" using j1 "1.prems"(6) by simp
    have before: "\<forall>m. 1 \<le> m \<and> m < j \<longrightarrow> \<not> poll m \<and> stableStreak A ops f st m < 3"
      using "1.prems"(6,7) by simp
    show ?thesis
      using r j1 np before False "1.prems"(1,2,3,4,5) by simp
  next
    case True
    show ?thesis
    proof (cases "30 \<le> Suc j")
      case lim: True
      then have j30: "Suc j = 30" using "1.prems"(1) by simp
      have r: "r = (IterationLimit, Suc j, snd (snd ?p),
                  ncWarning (FixpointNotReached (Suc j)) (fst ?p), fst (snd ?p), ?h)"
        using "1.prems"(8) True lim by (simp add: analyzeLoop.simps Let_def)
      have "\<forall>m. 1 \<le> m \<and> m < 30 \<longrightarrow> \<not> poll m \<and> stableStreak A ops f st m < 3"
        using polls [OF True] j30 by simp
      then show ?thesis
        using r j30 p1 p2 h' by simp
    next
      case nolim: False
      show ?thesis
      proof (cases "poll (Suc j)")
        case c: True
        have r: "r = (CancellationRaised, Suc j, snd (snd ?p), fst ?p, fst (snd ?p), ?h)"
          using "1.prems"(8) True nolim c by (simp add: analyzeLoop.simps Let_def)
        show ?thesis
          using r nolim c p1 p2 h' polls [OF True] by simp
      next
        case nc: False
        have eq: "r = analyzeLoop A ops f poll (Suc j, snd (snd ?p), fst ?p, fst (snd ?p), ?h)"
          using "1.prems"(8) True nolim nc by (simp add: analyzeLoop.simps Let_def)
        have a6: "\<forall>m. 1 \<le> m \<and> m \<le> Suc j \<longrightarrow> \<not> poll m"
          using "1.prems"(6) nc by (auto simp: le_Suc_eq)
        have a7: "\<forall>m. m < Suc j \<longrightarrow> stableStreak A ops f st m < 3"
          using "1.prems"(4,7) True by (auto simp: less_Suc_eq)
        have lt: "Suc j < 30" using nolim by simp
        show ?thesis
          by (rule "1.hyps" [OF True refl refl nolim nc lt p1 p2 p3 h' a6 a7 eq])
      qed
    qed
  qed
qed


lemma foldl_analyzeBlock_unchanged:
  "passUnchanged A ops f st out bs \<Longrightarrow> fst (snd (foldl (analyzeBlock A ops f) (st, out, nf) bs)) = out"
proof (induction bs arbitrary: st)
  case Nil
  show ?case by simp
next
  case (Cons b bs)
  then show ?case by (simp add: analyzeBlock_blockResult)
qed

lemma foldl_analyzeBlock_untouched:
  "i \<notin> block_id ` set bs \<Longrightarrow> fst (snd (foldl (analyzeBlock A ops f) (st, out, nf) bs)) i = out i"
proof (induction bs arbitrary: st out nf)
  case Nil
  show ?case by simp
next
  case (Cons b bs)
  then show ?case by (simp add: analyzeBlock_blockResult)
qed

lemma foldl_analyzeBlock_changed:
  "distinct (map block_id bs) \<Longrightarrow> \<not> passUnchanged A ops f st out bs \<Longrightarrow>
   fst (snd (foldl (analyzeBlock A ops f) (st, out, nf) bs)) \<noteq> out"
proof (induction bs arbitrary: st nf)
  case Nil
  then show ?case by simp
next
  case (Cons b bs)
  show ?case
  proof (cases "out (block_id b) = snd (blockResult A ops f st out b)")
    case True
    then have "\<not> passUnchanged A ops f (fst (blockResult A ops f st out b)) out bs"
      using Cons.prems(2) by simp
    then show ?thesis
      using Cons.IH [of "fst (blockResult A ops f st out b)" nf] Cons.prems(1) True
      by (simp add: analyzeBlock_blockResult)
  next
    case False
    have "block_id b \<notin> block_id ` set bs" using Cons.prems(1) by simp
    then have "fst (snd (foldl (analyzeBlock A ops f)
                 (fst (blockResult A ops f st out b),
                  out(block_id b := snd (blockResult A ops f st out b)), 0) bs)) (block_id b) =
               (out(block_id b := snd (blockResult A ops f st out b))) (block_id b)"
      by (rule foldl_analyzeBlock_untouched)
    then have "fst (snd (foldl (analyzeBlock A ops f) (st, out, nf) (b # bs))) (block_id b) =
               snd (blockResult A ops f st out b)"
      using False by (simp add: analyzeBlock_blockResult)
    then show ?thesis using False by metis
  qed
qed

lemma stablePass_outDefinitions:
  "stablePass A ops f st (Suc k) \<Longrightarrow>
   snd (afterPasses A ops f st (Suc k)) = snd (afterPasses A ops f st k)"
  by (simp add: stablePass_Suc Let_def runPass_def foldl_analyzeBlock_unchanged)

lemma outDefinitions_stablePass:
  "distinct (map block_id (basicBlocks f)) \<Longrightarrow>
   snd (afterPasses A ops f st (Suc k)) = snd (afterPasses A ops f st k) \<Longrightarrow>
   stablePass A ops f st (Suc k)"
  using foldl_analyzeBlock_changed
    [of "basicBlocks f" A ops f "fst (afterPasses A ops f st k)" "snd (afterPasses A ops f st k)" 1]
  by (auto simp: stablePass_Suc Let_def runPass_def)

text \<open>
  Claim C1 (as amended). The loop of \<^verbatim>\<open>analyze\<close> always ends (\<open>analyzeLoop\<close> is a total
  function, by the termination proof above), after at least one and at most 30 passes.
  It ends after the first pass at which one of three things holds: the pass is the 30th;
  or the poll of the cancellation token after the pass raises; or the pass is the last
  of three consecutive passes that produce no change in the out-definitions of any
  block. So three such passes do end the loop, and nothing else does. The loop is left
  by the break if that pass is the 30th, and then the warning is emitted before the
  break; otherwise by the poll if it raises, which abandons the analysis; otherwise
  because its condition fails. Only the break adds a warning: in the other two cases
  the store is the one that the passes left. A pass produces no change when for each
  block in turn the context computed for it is what is stored as its out-definitions;
  the out-definitions after such a pass are those before it, and when the blocks have
  identities of their own the converse holds too. \<open>analyze\<close> returns no store exactly
  when a poll raised.
\<close>

theorem analyzeLoop_exits:
  "(case analyzeLoop A ops f poll (0, 0, st, (\<lambda>b. []), []) of
      (exit, niterations, nfixpoints, st', outDefinitions, history) \<Rightarrow>
        1 \<le> niterations \<and> niterations \<le> 30
        \<and> loopStops A ops f poll st niterations
        \<and> (\<forall>m. 1 \<le> m \<and> m < niterations \<longrightarrow> \<not> loopStops A ops f poll st m)
        \<and> exit = (if niterations = 30 then IterationLimit
                   else if poll niterations then CancellationRaised else ConditionFailed)
        \<and> st' = (if niterations = 30
                  then ncWarning (FixpointNotReached 30) (fst (afterPasses A ops f st 30))
                  else fst (afterPasses A ops f st niterations))
        \<and> warnings st' =
            (if niterations = 30
             then warnings (fst (afterPasses A ops f st 30)) @ [FixpointNotReached 30]
             else warnings (fst (afterPasses A ops f st niterations)))
        \<and> outDefinitions = snd (afterPasses A ops f st niterations)
        \<and> history = map (\<lambda>k. \<not> stablePass A ops f st k) [1..<Suc niterations])
   \<and> (\<forall>k. stablePass A ops f st (Suc k) \<longrightarrow>
          snd (afterPasses A ops f st (Suc k)) = snd (afterPasses A ops f st k))
   \<and> (distinct (map block_id (basicBlocks f)) \<longrightarrow>
        (\<forall>k. stablePass A ops f st (Suc k) =
              (snd (afterPasses A ops f st (Suc k)) = snd (afterPasses A ops f st k))))
   \<and> (analyze A ops f poll st = None) =
       (fst (analyzeLoop A ops f poll (0, 0, st, (\<lambda>b. []), [])) = CancellationRaised)"
proof -
  obtain exit niterations nfixpoints st' outDefinitions history where
    r: "analyzeLoop A ops f poll (0, 0, st, (\<lambda>b. []), []) =
          (exit, niterations, nfixpoints, st', outDefinitions, history)"
    by (metis prod.collapse)
  let ?r = "(exit, niterations, nfixpoints, st', outDefinitions, history)"
  have run: "1 \<le> fst (snd ?r) \<and> fst (snd ?r) \<le> 30
     \<and> (fst (snd ?r) = 30 \<or> poll (fst (snd ?r)) \<or> 3 \<le> stableStreak A ops f st (fst (snd ?r)))
     \<and> (\<forall>m. 1 \<le> m \<and> m < fst (snd ?r) \<longrightarrow> \<not> poll m \<and> stableStreak A ops f st m < 3)
     \<and> fst ?r = (if fst (snd ?r) = 30 then IterationLimit
                else if poll (fst (snd ?r)) then CancellationRaised else ConditionFailed)
     \<and> fst (snd (snd (snd ?r))) =
         (if fst (snd ?r) = 30
          then ncWarning (FixpointNotReached 30) (fst (afterPasses A ops f st 30))
          else fst (afterPasses A ops f st (fst (snd ?r))))
     \<and> fst (snd (snd (snd (snd ?r)))) = snd (afterPasses A ops f st (fst (snd ?r)))
     \<and> snd (snd (snd (snd (snd ?r)))) = map (\<lambda>k. \<not> stablePass A ops f st k) [1..<Suc (fst (snd ?r))]"
    by (rule analyzeLoop_run [where j = 0 and nf = 0 and stj = st and outj = "\<lambda>b. []" and h = "[]"])
       (simp_all add: r)
  note run = run [unfolded fst_conv snd_conv]
  have stops: "loopStops A ops f poll st niterations"
    using run by (simp add: loopStops_def stableStreak_three)
  have first: "\<forall>m. 1 \<le> m \<and> m < niterations \<longrightarrow> \<not> loopStops A ops f poll st m"
  proof (intro allI impI)
    fix m
    assume m: "1 \<le> m \<and> m < niterations"
    then have "\<not> poll m \<and> stableStreak A ops f st m < 3" using run by simp
    moreover have "m \<noteq> 30" using m run by simp
    moreover have "(stableStreak A ops f st m < 3) =
                   (\<not> (stablePass A ops f st m \<and> stablePass A ops f st (m - 1) \<and> stablePass A ops f st (m - 2)))"
      using stableStreak_three [of A ops f st m] by (simp add: not_le [symmetric])
    ultimately show "\<not> loopStops A ops f poll st m"
      by (simp add: loopStops_def)
  qed
  have st': "st' = (if niterations = 30
                  then ncWarning (FixpointNotReached 30) (fst (afterPasses A ops f st 30))
                  else fst (afterPasses A ops f st niterations))"
    using run by simp
  have w: "warnings st' =
            (if niterations = 30
             then warnings (fst (afterPasses A ops f st 30)) @ [FixpointNotReached 30]
             else warnings (fst (afterPasses A ops f st niterations)))"
    by (simp add: st' ncWarning_def)
  have loop: "(case analyzeLoop A ops f poll (0, 0, st, (\<lambda>b. []), []) of
      (exit, niterations, nfixpoints, st', outDefinitions, history) \<Rightarrow>
        1 \<le> niterations \<and> niterations \<le> 30
        \<and> loopStops A ops f poll st niterations
        \<and> (\<forall>m. 1 \<le> m \<and> m < niterations \<longrightarrow> \<not> loopStops A ops f poll st m)
        \<and> exit = (if niterations = 30 then IterationLimit
                   else if poll niterations then CancellationRaised else ConditionFailed)
        \<and> st' = (if niterations = 30
                  then ncWarning (FixpointNotReached 30) (fst (afterPasses A ops f st 30))
                  else fst (afterPasses A ops f st niterations))
        \<and> warnings st' =
            (if niterations = 30
             then warnings (fst (afterPasses A ops f st 30)) @ [FixpointNotReached 30]
             else warnings (fst (afterPasses A ops f st niterations)))
        \<and> outDefinitions = snd (afterPasses A ops f st niterations)
        \<and> history = map (\<lambda>k. \<not> stablePass A ops f st k) [1..<Suc niterations])"
    unfolding r prod.case
    using run stops first st' w by simp
  have out1: "\<forall>k. stablePass A ops f st (Suc k) \<longrightarrow>
          snd (afterPasses A ops f st (Suc k)) = snd (afterPasses A ops f st k)"
    using stablePass_outDefinitions by blast
  have out2: "distinct (map block_id (basicBlocks f)) \<longrightarrow>
        (\<forall>k. stablePass A ops f st (Suc k) =
              (snd (afterPasses A ops f st (Suc k)) = snd (afterPasses A ops f st k)))"
    using stablePass_outDefinitions outDefinitions_stablePass by blast
  have "(analyze A ops f poll st = None) =
       (fst (analyzeLoop A ops f poll (0, 0, st, (\<lambda>b. []), [])) = CancellationRaised)"
    by (simp add: analyze_def Let_def)
  with loop out1 out2 show ?thesis by blast
qed

theorem analyzeLoop_exits_witness:
  "fst (analyzeLoop exampleArchitecture exampleOps loopFunction (\<lambda>n. False)
          (0, 0, emptyStore, (\<lambda>b. []), [])) = ConditionFailed
   \<and> fst (snd (analyzeLoop exampleArchitecture exampleOps loopFunction (\<lambda>n. False)
          (0, 0, emptyStore, (\<lambda>b. []), []))) = 4
   \<and> snd (snd (snd (snd (snd (analyzeLoop exampleArchitecture exampleOps loopFunction (\<lambda>n. False)
          (0, 0, emptyStore, (\<lambda>b. []), [])))))) = [True, False, False, False]
   \<and> \<not> stablePass exampleArchitecture exampleOps loopFunction emptyStore 1
   \<and> stablePass exampleArchitecture exampleOps loopFunction emptyStore 2
   \<and> snd (afterPasses exampleArchitecture exampleOps loopFunction emptyStore 2) =
       snd (afterPasses exampleArchitecture exampleOps loopFunction emptyStore 1)
   \<and> loopStops exampleArchitecture exampleOps loopFunction (\<lambda>n. False) emptyStore 4
   \<and> \<not> loopStops exampleArchitecture exampleOps loopFunction (\<lambda>n. False) emptyStore 3
   \<and> fst (analyzeLoop exampleArchitecture exampleOps emptyFunction (\<lambda>n. n = 2)
            (0, 0, emptyStore, (\<lambda>b. []), [])) = CancellationRaised
   \<and> fst (snd (analyzeLoop exampleArchitecture exampleOps emptyFunction (\<lambda>n. n = 2)
            (0, 0, emptyStore, (\<lambda>b. []), []))) = 2
   \<and> warnings (fst (snd (snd (snd (analyzeLoop exampleArchitecture exampleOps emptyFunction (\<lambda>n. n = 2)
            (0, 0, emptyStore, (\<lambda>b. []), [])))))) = []
   \<and> analyze exampleArchitecture exampleOps emptyFunction (\<lambda>n. n = 2) emptyStore = None
   \<and> fst (analyzeLoop exampleArchitecture exampleOps driftingFunction (\<lambda>n. False)
            (0, 0, emptyStore, (\<lambda>b. []), [])) = IterationLimit
   \<and> fst (snd (analyzeLoop exampleArchitecture exampleOps driftingFunction (\<lambda>n. False)
            (0, 0, emptyStore, (\<lambda>b. []), []))) = 30
   \<and> warnings (fst (snd (snd (snd (analyzeLoop exampleArchitecture exampleOps driftingFunction
            (\<lambda>n. False) (0, 0, emptyStore, (\<lambda>b. []), [])))))) = [FixpointNotReached 30]"
proof -
  have s1: "\<not> stablePass exampleArchitecture exampleOps loopFunction emptyStore 1"
    by code_simp
  have s2: "stablePass exampleArchitecture exampleOps loopFunction emptyStore (Suc 1)"
    by code_simp
  have s3: "stablePass exampleArchitecture exampleOps loopFunction emptyStore 3"
    by code_simp
  have s4: "stablePass exampleArchitecture exampleOps loopFunction emptyStore 4"
    by code_simp
  have u: "[1..<Suc 4] = [1, Suc 1, 3, 4]"
    by (simp add: upt_rec)
  have two: "(2::nat) = Suc 1" by simp
  have a: "fst (analyzeLoop exampleArchitecture exampleOps loopFunction (\<lambda>n. False)
          (0, 0, emptyStore, (\<lambda>b. []), [])) = ConditionFailed
    \<and> fst (snd (analyzeLoop exampleArchitecture exampleOps loopFunction (\<lambda>n. False)
          (0, 0, emptyStore, (\<lambda>b. []), []))) = 4
    \<and> snd (snd (snd (snd (snd (analyzeLoop exampleArchitecture exampleOps loopFunction (\<lambda>n. False)
          (0, 0, emptyStore, (\<lambda>b. []), [])))))) = [True, False, False, False]
    \<and> snd (afterPasses exampleArchitecture exampleOps loopFunction emptyStore (Suc 1)) =
       snd (afterPasses exampleArchitecture exampleOps loopFunction emptyStore 1)
    \<and> loopStops exampleArchitecture exampleOps loopFunction (\<lambda>n. False) emptyStore 4
    \<and> \<not> loopStops exampleArchitecture exampleOps loopFunction (\<lambda>n. False) emptyStore 3"
  proof -
    obtain exit n nf st' out h where
      r: "analyzeLoop exampleArchitecture exampleOps loopFunction (\<lambda>n. False)
            (0, 0, emptyStore, (\<lambda>b. []), []) = (exit, n, nf, st', out, h)"
      by (metis prod.collapse)
    have "fst (snd (analyzeLoop exampleArchitecture exampleOps loopFunction (\<lambda>n. False)
          (0, 0, emptyStore, (\<lambda>b. []), []))) = 4"
      by code_simp
    then have n: "n = 4" by (simp add: r)
    note run = analyzeLoop_exits [where A = exampleArchitecture and ops = exampleOps
        and f = loopFunction and poll = "\<lambda>n. False" and st = emptyStore, unfolded r prod.case n]
    note loop = run [THEN conjunct1]
    have stops: "loopStops exampleArchitecture exampleOps loopFunction (\<lambda>n. False) emptyStore 4"
      using loop by (elim conjE)
    have "1 \<le> (3::nat) \<and> (3::nat) < 4 \<longrightarrow>
            \<not> loopStops exampleArchitecture exampleOps loopFunction (\<lambda>n. False) emptyStore 3"
      using loop by (elim conjE) (rule spec)
    then have before: "\<not> loopStops exampleArchitecture exampleOps loopFunction (\<lambda>n. False) emptyStore 3"
      by simp
    have "exit = (if (4::nat) = 30 then IterationLimit
                   else if False then CancellationRaised else ConditionFailed)"
      using loop by (elim conjE)
    then have exit: "exit = ConditionFailed" by simp
    have "h = map (\<lambda>k. \<not> stablePass exampleArchitecture exampleOps loopFunction emptyStore k) [1..<Suc 4]"
      using loop by (elim conjE)
    then have h: "h = [True, False, False, False]"
      using s1 s2 s3 s4 by (simp only: u list.map simp_thms)
    have "stablePass exampleArchitecture exampleOps loopFunction emptyStore (Suc 1) \<longrightarrow>
          snd (afterPasses exampleArchitecture exampleOps loopFunction emptyStore (Suc 1)) =
          snd (afterPasses exampleArchitecture exampleOps loopFunction emptyStore 1)"
      using run [THEN conjunct2, THEN conjunct1] by (rule spec)
    then have out: "snd (afterPasses exampleArchitecture exampleOps loopFunction emptyStore (Suc 1)) =
          snd (afterPasses exampleArchitecture exampleOps loopFunction emptyStore 1)"
      using s2 by (rule mp)
    show ?thesis
      using stops before exit h out by (simp only: r n fst_conv snd_conv simp_thms)
  qed
  have c: "fst (analyzeLoop exampleArchitecture exampleOps emptyFunction (\<lambda>n. n = 2)
            (0, 0, emptyStore, (\<lambda>b. []), [])) = CancellationRaised
     \<and> fst (snd (analyzeLoop exampleArchitecture exampleOps emptyFunction (\<lambda>n. n = 2)
            (0, 0, emptyStore, (\<lambda>b. []), []))) = 2
     \<and> warnings (fst (snd (snd (snd (analyzeLoop exampleArchitecture exampleOps emptyFunction (\<lambda>n. n = 2)
            (0, 0, emptyStore, (\<lambda>b. []), [])))))) = []
     \<and> analyze exampleArchitecture exampleOps emptyFunction (\<lambda>n. n = 2) emptyStore = None"
  proof -
    obtain exit n nf st' out h where
      r: "analyzeLoop exampleArchitecture exampleOps emptyFunction (\<lambda>n. n = 2)
            (0, 0, emptyStore, (\<lambda>b. []), []) = (exit, n, nf, st', out, h)"
      by (metis prod.collapse)
    have "fst (snd (analyzeLoop exampleArchitecture exampleOps emptyFunction (\<lambda>n. n = 2)
            (0, 0, emptyStore, (\<lambda>b. []), []))) = 2"
      by code_simp
    then have n: "n = 2" by (simp add: r)
    have w: "warnings (fst (afterPasses exampleArchitecture exampleOps emptyFunction emptyStore 2)) = []"
      by code_simp
    note run = analyzeLoop_exits [where A = exampleArchitecture and ops = exampleOps
        and f = emptyFunction and poll = "\<lambda>n. n = 2" and st = emptyStore, unfolded r prod.case n]
    note loop = run [THEN conjunct1]
    have "exit = (if (2::nat) = 30 then IterationLimit
                   else if (2::nat) = 2 then CancellationRaised else ConditionFailed)"
      using loop by (elim conjE)
    then have exit: "exit = CancellationRaised" by simp
    have "warnings st' =
            (if (2::nat) = 30
             then warnings (fst (afterPasses exampleArchitecture exampleOps emptyFunction emptyStore 30)) @
                  [FixpointNotReached 30]
             else warnings (fst (afterPasses exampleArchitecture exampleOps emptyFunction emptyStore 2)))"
      using loop by (elim conjE)
    then have ws: "warnings st' = []" using w by simp
    have "(analyze exampleArchitecture exampleOps emptyFunction (\<lambda>n. n = 2) emptyStore = None) =
          (fst (exit, 2::nat, nf, st', out, h) = CancellationRaised)"
      using run by (elim conjE)
    then have an: "analyze exampleArchitecture exampleOps emptyFunction (\<lambda>n. n = 2) emptyStore = None"
      using exit by simp
    show ?thesis
      using exit ws an by (simp only: r n fst_conv snd_conv simp_thms)
  qed
  have d: "fst (analyzeLoop exampleArchitecture exampleOps driftingFunction (\<lambda>n. False)
            (0, 0, emptyStore, (\<lambda>b. []), [])) = IterationLimit
     \<and> fst (snd (analyzeLoop exampleArchitecture exampleOps driftingFunction (\<lambda>n. False)
            (0, 0, emptyStore, (\<lambda>b. []), []))) = 30
     \<and> warnings (fst (snd (snd (snd (analyzeLoop exampleArchitecture exampleOps driftingFunction
            (\<lambda>n. False) (0, 0, emptyStore, (\<lambda>b. []), [])))))) = [FixpointNotReached 30]"
  proof -
    obtain exit n nf st' out h where
      r: "analyzeLoop exampleArchitecture exampleOps driftingFunction (\<lambda>n. False)
            (0, 0, emptyStore, (\<lambda>b. []), []) = (exit, n, nf, st', out, h)"
      by (metis prod.collapse)
    have "fst (snd (analyzeLoop exampleArchitecture exampleOps driftingFunction (\<lambda>n. False)
            (0, 0, emptyStore, (\<lambda>b. []), []))) = 30"
      by code_simp
    then have n: "n = 30" by (simp add: r)
    have w: "warnings (fst (afterPasses exampleArchitecture exampleOps driftingFunction emptyStore 30)) = []"
      by code_simp
    note run = analyzeLoop_exits [where A = exampleArchitecture and ops = exampleOps
        and f = driftingFunction and poll = "\<lambda>n. False" and st = emptyStore, unfolded r prod.case n]
    note loop = run [THEN conjunct1]
    have "exit = (if (30::nat) = 30 then IterationLimit
                   else if False then CancellationRaised else ConditionFailed)"
      using loop by (elim conjE)
    then have exit: "exit = IterationLimit" by simp
    have "warnings st' =
            (if (30::nat) = 30
             then warnings (fst (afterPasses exampleArchitecture exampleOps driftingFunction emptyStore 30)) @
                  [FixpointNotReached 30]
             else warnings (fst (afterPasses exampleArchitecture exampleOps driftingFunction emptyStore 30)))"
      using loop by (elim conjE)
    then have ws: "warnings st' = [FixpointNotReached 30]" using w by simp
    show ?thesis
      using exit ws by (simp only: r n fst_conv snd_conv simp_thms)
  qed
  show ?thesis using a c d s1 s2 by (simp only: two simp_thms)
qed

text \<open>The claim as first stated fails: it knows only the first two ways. With a token
  that raises at the first poll the loop is left after one pass, which is neither three
  stable passes nor the 30th iteration, and no warning is emitted.\<close>

theorem analyzeLoop_cancellation_counterexample:
  "fst (analyzeLoop exampleArchitecture exampleOps emptyFunction (\<lambda>n. True)
          (0, 0, emptyStore, (\<lambda>b. []), [])) = CancellationRaised
   \<and> snd (snd (snd (snd (snd (analyzeLoop exampleArchitecture exampleOps emptyFunction (\<lambda>n. True)
          (0, 0, emptyStore, (\<lambda>b. []), [])))))) = [False]
   \<and> warnings (fst (snd (snd (snd (analyzeLoop exampleArchitecture exampleOps emptyFunction (\<lambda>n. True)
          (0, 0, emptyStore, (\<lambda>b. []), [])))))) = []"
  by code_simp

end
